theory Spec2Isabelle
  imports Complex_Main "HOL-Library.Stream" "HOL-Library.Monad_Syntax"
begin

section \<open>Numbers and the random source\<close>

text \<open>
  JavaScript numbers are doubles. The one-hand path of \<open>calculateGestureData\<close> divides one
  computed distance by another and tests one against 0, so it is modelled in the type
  \<open>double\<close> below, with overflow, underflow and \<^verbatim>\<open>NaN\<close>. Everywhere else numbers are
  modelled as reals, without rounding, overflow or underflow: for the two-hand path see
  \<open>calculateGestureData\<close>, and the generator's partial functions are modelled in its
  section.

  \<^verbatim>\<open>Math.random()\<close> reads the next draw of a stream of reals; the stream is the
  state of the random source and is passed explicitly.
\<close>

type_synonym rng = "real stream"

definition Math_random :: "rng \<Rightarrow> real \<times> rng" where
  "Math_random s = (shd s, stl s)"

text \<open>The contract of \<^verbatim>\<open>Math.random()\<close>: every draw lies in \<open>[0, 1)\<close>.\<close>

definition unitDraws :: "rng \<Rightarrow> bool" where
  "unitDraws s = (\<forall>u \<in> sset s. 0 \<le> u \<and> u < 1)"

text \<open>\<^verbatim>\<open>a || b\<close> on numbers: \<open>b\<close> when \<open>a\<close> is falsy, that is \<open>0\<close>.\<close>

definition js_or :: "real \<Rightarrow> real \<Rightarrow> real" where
  "js_or a b = (if a = 0 then b else a)"

text \<open>
  Reading a JavaScript array: \<^verbatim>\<open>xs[i]\<close> is \<^verbatim>\<open>undefined\<close> out of range.
  Reading a property of \<^verbatim>\<open>undefined\<close> throws a \<^verbatim>\<open>TypeError\<close>.
\<close>

datatype error = TypeError | DetectorError

definition js_at :: "'a list \<Rightarrow> nat \<Rightarrow> 'a option" where
  "js_at xs i = (if i < length xs then Some (xs ! i) else None)"

section \<open>Double arithmetic\<close>

text \<open>
  A JavaScript number: a finite value, an infinity or \<^verbatim>\<open>NaN\<close>. The operations follow
  IEEE 754 with round-to-nearest-even, except that the rounding of a result to 53
  significant bits is not modelled (a finite result in the normal range is kept exact) and
  the sign of a zero is not modelled. What is modelled:

  \<^item> a result of magnitude \<open>2^1024 - 2^970\<close> or more overflows to an infinity;
  \<^item> a product below \<open>2^-1022\<close> in magnitude is rounded to a multiple of \<open>2^-1074\<close>, ties
    to even, so that one of magnitude \<open>2^-1075\<close> or less is 0;
  \<^item> a sum or a difference of doubles below \<open>2^-1022\<close> is exact;
  \<^item> a quotient below \<open>2^-1022\<close> is kept exact: the code only subtracts 0.5 from one and
    clamps the other.
\<close>

datatype double = Fin real | PInf | NInf | NaN

definition overflowAt :: real where
  "overflowAt = 2 ^ 1024 - 2 ^ 970"

definition minNormal :: real where
  "minNormal = 1 / 2 ^ 1022"


definition ofl :: "real \<Rightarrow> double" where
  "ofl r = (if overflowAt \<le> r then PInf else if r \<le> - overflowAt then NInf else Fin r)"

text \<open>The nearest integer, ties to even; and the nearest multiple of \<open>2^-1074\<close>.\<close>

definition roundEven :: "real \<Rightarrow> int" where
  "roundEven x =
     (let n = \<lfloor>x\<rfloor>;
          f = x - of_int n
      in if f < 1 / 2 then n else if 1 / 2 < f then n + 1 else if even n then n else n + 1)"

definition subnormal :: "real \<Rightarrow> real" where
  "subnormal r = of_int (roundEven (r * 2 ^ 1074)) / 2 ^ 1074"

definition rnd :: "real \<Rightarrow> double" where
  "rnd r = (if \<bar>r\<bar> < minNormal then Fin (subnormal r) else ofl r)"

fun dneg :: "double \<Rightarrow> double" where
  "dneg (Fin a) = Fin (- a)"
| "dneg PInf = NInf"
| "dneg NInf = PInf"
| "dneg NaN = NaN"

fun dadd :: "double \<Rightarrow> double \<Rightarrow> double" where
  "dadd (Fin a) (Fin b) = ofl (a + b)"
| "dadd (Fin a) PInf = PInf"
| "dadd (Fin a) NInf = NInf"
| "dadd PInf (Fin b) = PInf"
| "dadd NInf (Fin b) = NInf"
| "dadd PInf PInf = PInf"
| "dadd NInf NInf = NInf"
| "dadd PInf NInf = NaN"
| "dadd NInf PInf = NaN"
| "dadd NaN b = NaN"
| "dadd a NaN = NaN"

definition dsub :: "double \<Rightarrow> double \<Rightarrow> double" where
  "dsub a b = dadd a (dneg b)"

fun dmul :: "double \<Rightarrow> double \<Rightarrow> double" where
  "dmul (Fin a) (Fin b) = rnd (a * b)"
| "dmul (Fin a) PInf = (if a = 0 then NaN else if 0 < a then PInf else NInf)"
| "dmul (Fin a) NInf = (if a = 0 then NaN else if 0 < a then NInf else PInf)"
| "dmul PInf (Fin b) = (if b = 0 then NaN else if 0 < b then PInf else NInf)"
| "dmul NInf (Fin b) = (if b = 0 then NaN else if 0 < b then NInf else PInf)"
| "dmul PInf PInf = PInf"
| "dmul NInf NInf = PInf"
| "dmul PInf NInf = NInf"
| "dmul NInf PInf = NInf"
| "dmul NaN b = NaN"
| "dmul a NaN = NaN"

fun ddiv :: "double \<Rightarrow> double \<Rightarrow> double" where
  "ddiv (Fin a) (Fin b) =
     (if b = 0 then (if a = 0 then NaN else if 0 < a then PInf else NInf) else ofl (a / b))"
| "ddiv (Fin a) PInf = Fin 0"
| "ddiv (Fin a) NInf = Fin 0"
| "ddiv PInf (Fin b) = (if 0 \<le> b then PInf else NInf)"
| "ddiv NInf (Fin b) = (if 0 \<le> b then NInf else PInf)"
| "ddiv PInf PInf = NaN"
| "ddiv NInf NInf = NaN"
| "ddiv PInf NInf = NaN"
| "ddiv NInf PInf = NaN"
| "ddiv NaN b = NaN"
| "ddiv a NaN = NaN"

fun dsqrt :: "double \<Rightarrow> double" where
  "dsqrt (Fin a) = (if a < 0 then NaN else Fin (sqrt a))"
| "dsqrt PInf = PInf"
| "dsqrt NInf = NaN"
| "dsqrt NaN = NaN"

text \<open>\<^verbatim>\<open>a || b\<close>: \<open>b\<close> when \<open>a\<close> is falsy, that is 0 or \<^verbatim>\<open>NaN\<close>.\<close>

fun dor :: "double \<Rightarrow> double \<Rightarrow> double" where
  "dor (Fin a) b = (if a = 0 then b else Fin a)"
| "dor NaN b = b"
| "dor PInf b = PInf"
| "dor NInf b = NInf"

text \<open>\<^verbatim>\<open>Math.max\<close> and \<^verbatim>\<open>Math.min\<close>: \<^verbatim>\<open>NaN\<close> when an argument is \<^verbatim>\<open>NaN\<close>.\<close>

fun dmax :: "double \<Rightarrow> double \<Rightarrow> double" where
  "dmax (Fin a) (Fin b) = Fin (max a b)"
| "dmax NaN b = NaN"
| "dmax a NaN = NaN"
| "dmax PInf b = PInf"
| "dmax a PInf = PInf"
| "dmax NInf b = b"
| "dmax a NInf = a"

fun dmin :: "double \<Rightarrow> double \<Rightarrow> double" where
  "dmin (Fin a) (Fin b) = Fin (min a b)"
| "dmin NaN b = NaN"
| "dmin a NaN = NaN"
| "dmin NInf b = NInf"
| "dmin a NInf = NInf"
| "dmin PInf b = b"
| "dmin a PInf = a"

section \<open>services/vision.ts\<close>

text \<open>A landmark of MediaPipe: the normalized image coordinates that the code reads.\<close>

record NormalizedLandmark =
  lm_x :: real
  lm_y :: real

text \<open>
  \<^verbatim>\<open>HandLandmarkerResult\<close>: \<open>landmarks\<close> holds one list of landmarks per detected
  hand; \<open>None\<close> is a result whose \<^verbatim>\<open>landmarks\<close> is missing (falsy), which the code
  checks for.
\<close>

record HandLandmarkerResult =
  landmarks :: "NormalizedLandmark list list option"

text \<open>
  A gesture record with finite fields, as the frame callback reads it; and the value of
  the interface \<^verbatim>\<open>GestureData\<close> in general, whose \<^verbatim>\<open>expansion\<close> may be a number that
  is not finite.
\<close>

record GestureData =
  expansion :: real
  lift :: real

datatype gesture = Finite GestureData | NotFinite double real

definition gestureOf :: "double \<Rightarrow> real \<Rightarrow> gesture" where
  "gestureOf e l = (case e of Fin x \<Rightarrow> Finite \<lparr>expansion = x, lift = l\<rparr> | _ \<Rightarrow> NotFinite e l)"

text \<open>
  The detector (\<^verbatim>\<open>HandLandmarker.detectForVideo\<close>) is external: a function of the
  video frame and the timestamp that returns a result or throws (\<open>Inl\<close>).
  The module variable \<^verbatim>\<open>handLandmarker\<close> is \<open>None\<close> until initialised.
\<close>

type_synonym 'v HandLandmarker = "'v \<Rightarrow> real \<Rightarrow> error + HandLandmarkerResult"

definition detectHands ::
  "'v HandLandmarker option \<Rightarrow> 'v \<Rightarrow> real \<Rightarrow> HandLandmarkerResult option" where
  "detectHands handLandmarker video startTimeMs =
     (case handLandmarker of
        None \<Rightarrow> None
      | Some detector \<Rightarrow>
          (case detector video startTimeMs of
             Inr result \<Rightarrow> Some result
           | Inl e \<Rightarrow> None))"

text \<open>
  The two-hand path is computed over reals. Its expansion is the code's up to rounding for
  all coordinates: an overflow of the distance leaves the clamped expansion at 1 and an
  underflow leaves it at 0, as the exact values do, and no \<^verbatim>\<open>NaN\<close> arises. Its lift is the
  code's up to rounding as long as the sum of the two vertical coordinates does not
  overflow. The one-hand path is computed in \<open>double\<close>; its lift is a coordinate as read.
\<close>

definition calculateGestureData :: "HandLandmarkerResult \<Rightarrow> error + gesture" where
  "calculateGestureData result =
     (case landmarks result of
        None \<Rightarrow> Inr (Finite \<lparr>expansion = 0, lift = 0.5\<rparr>)
      | Some ls \<Rightarrow>
          if length ls = 0 then Inr (Finite \<lparr>expansion = 0, lift = 0.5\<rparr>)
          else if length ls = 2 then
            (case (js_at (ls ! 0) 0, js_at (ls ! 1) 0) of
               (Some hand1, Some hand2) \<Rightarrow>
                 let dx = lm_x hand1 - lm_x hand2;
                     dy = lm_y hand1 - lm_y hand2;
                     distance = sqrt (dx * dx + dy * dy);
                     minD = 0.15;
                     maxD = 0.50;
                     raw = (distance - minD) / (maxD - minD)
                 in Inr (Finite \<lparr>expansion = min (max raw 0) 1,
                                 lift = (lm_y hand1 + lm_y hand2) / 2\<rparr>)
             | _ \<Rightarrow> Inl TypeError)
          else if length ls = 1 then
            (let hand = ls ! 0 in
             case (js_at hand 4, js_at hand 20, js_at hand 0, js_at hand 9) of
               (Some thumbTip, Some pinkyTip, Some wrist, Some middleMCP) \<Rightarrow>
                 let spreadDx = dsub (Fin (lm_x thumbTip)) (Fin (lm_x pinkyTip));
                     spreadDy = dsub (Fin (lm_y thumbTip)) (Fin (lm_y pinkyTip));
                     spread = dsqrt (dadd (dmul spreadDx spreadDx) (dmul spreadDy spreadDy));
                     sizeDx = dsub (Fin (lm_x middleMCP)) (Fin (lm_x wrist));
                     sizeDy = dsub (Fin (lm_y middleMCP)) (Fin (lm_y wrist));
                     handSize = dor (dsqrt (dadd (dmul sizeDx sizeDx) (dmul sizeDy sizeDy)))
                                  (Fin 0.1);
                     normalizedSpread = ddiv spread handSize;
                     minSpread = Fin 0.5;
                     maxSpread = Fin 1.2;
                     raw = ddiv (dsub normalizedSpread minSpread) (dsub maxSpread minSpread);
                     expansion = dmin (dmax raw (Fin 0)) (Fin 1)
                 in Inr (gestureOf expansion (lm_y wrist))
             | _ \<Rightarrow> Inl TypeError)
          else Inr (Finite \<lparr>expansion = 0, lift = 0.5\<rparr>))"









text \<open>The number of detected hands of a result, and the wrist landmarks (index 0) it holds.\<close>

definition numHands :: "HandLandmarkerResult \<Rightarrow> nat" where
  "numHands result = (case landmarks result of None \<Rightarrow> 0 | Some ls \<Rightarrow> length ls)"




section \<open>types.ts\<close>

text \<open>
  The shape selector. \<open>OTHER\<close> stands for any value outside the enumeration, which
  reaches the \<^verbatim>\<open>default\<close> branch of the generator's \<^verbatim>\<open>switch\<close>.
\<close>

datatype ShapeType = HEART | ROSE | SATURN | DL | TREE | OTHER

section \<open>components/ParticleMesh.tsx: the frame callback\<close>

text \<open>
  Modelled from the spec: \<^verbatim>\<open>THREE.MathUtils.lerp\<close> belongs to the three.js
  library, which is not under src/. It is the linear interpolation by which the current
  value approaches the target with the given smoothing weight.
\<close>

definition lerp :: "real \<Rightarrow> real \<Rightarrow> real \<Rightarrow> real" where
  "lerp x y t = (1 - t) * x + t * y"

text \<open>
  The shader material's uniforms and the mesh's rotation. \<^verbatim>\<open>materialRef.current\<close>
  and \<^verbatim>\<open>meshRef.current\<close> are \<open>None\<close> while the objects are not mounted.
\<close>

record Uniforms =
  uTime :: real
  uExpansion :: real
  uColor :: string

record Rotation =
  rot_x :: real
  rot_y :: real

record Scene =
  materialRef :: "Uniforms option"
  meshRef :: "Rotation option"

definition targetTilt :: "GestureData \<Rightarrow> real" where
  "targetTilt gesture = (lift gesture - 0.5) * 1.5"

text \<open>
  The callback given to \<^verbatim>\<open>useFrame\<close>: \<open>gesture\<close> is \<^verbatim>\<open>gestureRef.current\<close> and
  \<open>elapsedTime\<close> is \<^verbatim>\<open>state.clock.getElapsedTime()\<close> at this frame.
\<close>

definition useFrame :: "ShapeType \<Rightarrow> string \<Rightarrow> GestureData \<Rightarrow> real \<Rightarrow> Scene \<Rightarrow> Scene" where
  "useFrame shape color gesture elapsedTime scene =
     (let material' =
            (case materialRef scene of
               None \<Rightarrow> None
             | Some m \<Rightarrow>
                 let currentExpansion = uExpansion m;
                     targetExpansion = expansion gesture;
                     lerpSpeed = 0.1
                 in Some (m\<lparr>uTime := elapsedTime, uColor := color,
                            uExpansion := lerp currentExpansion targetExpansion lerpSpeed\<rparr>));
          mesh' =
            (case meshRef scene of
               None \<Rightarrow> None
             | Some r \<Rightarrow>
                 let r1 = (if shape \<noteq> HEART \<and> shape \<noteq> DL
                           then r\<lparr>rot_y := rot_y r + 0.001\<rparr> else r)
                 in Some (r1\<lparr>rot_x := lerp (rot_x r1) (targetTilt gesture) 0.05\<rparr>))
      in \<lparr>materialRef = material', meshRef = mesh'\<rparr>)"

text \<open>
  A run of render frames: each frame reads the gesture state of that moment and the
  clock.
\<close>

fun runFrames :: "ShapeType \<Rightarrow> string \<Rightarrow> (GestureData \<times> real) list \<Rightarrow> Scene \<Rightarrow> Scene" where
  "runFrames shape color [] scene = scene"
| "runFrames shape color ((gesture, elapsedTime) # frames) scene =
     runFrames shape color frames (useFrame shape color gesture elapsedTime scene)"

text \<open>The two smoothed values, where the objects are mounted.\<close>

definition smoothedExpansion :: "Scene \<Rightarrow> real option" where
  "smoothedExpansion scene = map_option uExpansion (materialRef scene)"

definition smoothedTilt :: "Scene \<Rightarrow> real option" where
  "smoothedTilt scene = map_option rot_x (meshRef scene)"

section \<open>App.tsx: the detection loop\<close>

text \<open>
  What the loop reads at one animation frame: the module variable of the detector, the
  video element (\<^verbatim>\<open>videoRef.current\<close>, or \<open>None\<close>) and \<^verbatim>\<open>Date.now()\<close>.
\<close>

record VideoElement =
  readyState :: nat

record FrameEnv =
  handLandmarker :: "VideoElement HandLandmarker option"
  videoRef :: "VideoElement option"
  now :: real

text \<open>
  What the loop writes: the displayed hand count, the gesture mailbox, the errors given
  to \<^verbatim>\<open>console.error\<close> and the number of calls of \<^verbatim>\<open>requestAnimationFrame(loop)\<close>.
\<close>

record AppState =
  detectedHands :: nat
  gestureRef :: gesture
  errorLog :: "error list"
  framesRequested :: nat

text \<open>
  One run of \<^verbatim>\<open>loop\<close>. When \<open>calculateGestureData\<close> throws, the hand count has been
  set already; the \<^verbatim>\<open>catch\<close> block logs the error and sets the count to 0.
\<close>

definition loop :: "FrameEnv \<Rightarrow> AppState \<Rightarrow> AppState" where
  "loop env st =
     (let st1 =
        (case videoRef env of
           None \<Rightarrow> st
         | Some video \<Rightarrow>
             if readyState video \<ge> 2 then
               (case detectHands (handLandmarker env) video (now env) of
                  None \<Rightarrow> st\<lparr>detectedHands := 0\<rparr>
                | Some result \<Rightarrow>
                    (case landmarks result of
                       None \<Rightarrow> st\<lparr>detectedHands := 0\<rparr>
                     | Some ls \<Rightarrow>
                         (case calculateGestureData result of
                            Inr data \<Rightarrow> st\<lparr>detectedHands := length ls, gestureRef := data\<rparr>
                          | Inl e \<Rightarrow> st\<lparr>detectedHands := 0, errorLog := errorLog st @ [e]\<rparr>)))
             else st)
      in st1\<lparr>framesRequested := framesRequested st1 + 1\<rparr>)"

fun runLoop :: "FrameEnv list \<Rightarrow> AppState \<Rightarrow> AppState" where
  "runLoop [] st = st"
| "runLoop (env # envs) st = runLoop envs (loop env st)"

text \<open>Detection fails at a frame: no detector, or \<^verbatim>\<open>detectForVideo\<close> throws.\<close>

definition detectionFails :: "FrameEnv \<Rightarrow> VideoElement \<Rightarrow> bool" where
  "detectionFails env video =
     (case handLandmarker env of
        None \<Rightarrow> True
      | Some detector \<Rightarrow> (case detector video (now env) of Inl e \<Rightarrow> True | Inr r \<Rightarrow> False))"

text \<open>
  Sample frames: a detector that throws, a detector that finds no hand, a state left by
  two hands held apart, and a frame whose video is ready.
\<close>

definition throwing :: "VideoElement HandLandmarker" where
  "throwing video t = Inl DetectorError"

definition noHands :: "VideoElement HandLandmarker" where
  "noHands video t = Inr \<lparr>landmarks = Some []\<rparr>"

definition openState :: AppState where
  "openState = \<lparr>detectedHands = 2, gestureRef = Finite \<lparr>expansion = 1, lift = 0.3\<rparr>,
     errorLog = [],
     framesRequested = 7\<rparr>"

definition frameWith :: "VideoElement HandLandmarker option \<Rightarrow> FrameEnv" where
  "frameWith d = \<lparr>handLandmarker = d, videoRef = Some \<lparr>readyState = 4\<rparr>, now = 1000\<rparr>"

section \<open>utils/geometry.ts: the particle field generator\<close>

text \<open>
  \<^verbatim>\<open>Math.pow\<close>, \<^verbatim>\<open>Math.acos\<close> and \<^verbatim>\<open>Math.sqrt\<close> return \<^verbatim>\<open>NaN\<close> or
  \<^verbatim>\<open>Infinity\<close> on some finite arguments. They are modelled as partial functions:
  \<open>None\<close> is a result that is not a finite number. The generator runs in the option
  monad, so \<open>None\<close> says that such a value arose somewhere; \<open>Some\<close> is the result
  computed from finite numbers only. The other operations (\<open>+\<close>, \<open>-\<close>, \<open>*\<close>,
  \<^verbatim>\<open>Math.sin\<close>, \<^verbatim>\<open>Math.cos\<close>, \<^verbatim>\<open>Math.cbrt\<close>, \<^verbatim>\<open>Math.max\<close>,
  \<^verbatim>\<open>Math.floor\<close>) take finite numbers to finite numbers.
\<close>

definition Math_pow :: "real \<Rightarrow> real \<Rightarrow> real option" where
  "Math_pow x y =
     (if y = 0 then Some 1
      else if 0 < x then Some (x powr y)
      else if x = 0 then (if 0 < y then Some 0 else None)
      else if of_int \<lfloor>y\<rfloor> = y then Some (x powi \<lfloor>y\<rfloor>)
      else None)"

definition Math_acos :: "real \<Rightarrow> real option" where
  "Math_acos x = (if - 1 \<le> x \<and> x \<le> 1 then Some (arccos x) else None)"

definition Math_sqrt :: "real \<Rightarrow> real option" where
  "Math_sqrt x = (if 0 \<le> x then Some (sqrt x) else None)"

definition Math_cbrt :: "real \<Rightarrow> real" where
  "Math_cbrt x = root 3 x"

text \<open>A \<^verbatim>\<open>THREE.Vector3\<close>, and the point that a loop iteration gives to \<open>setPoint\<close>.\<close>

type_synonym Vector3 = "real \<times> real \<times> real"

definition randomPointInSphere :: "real \<Rightarrow> rng \<Rightarrow> (Vector3 \<times> rng) option" where
  "randomPointInSphere radius s0 =
     (let (u, s1) = Math_random s0;
          (v, s2) = Math_random s1;
          theta = 2 * pi * u
      in do {
        phi \<leftarrow> Math_acos (2 * v - 1);
        let (w, s3) = Math_random s2;
        let r = Math_cbrt w * radius;
        let sinPhi = sin phi;
        Some ((r * sinPhi * cos theta, r * sinPhi * sin theta, r * cos phi), s3)
      })"

text \<open>
  The positions buffer is a \<^verbatim>\<open>Float32Array\<close>: a write beyond its length is ignored,
  as by \<open>list_update\<close>.
\<close>

definition setPoint :: "real list \<Rightarrow> nat \<Rightarrow> real \<Rightarrow> real \<Rightarrow> real \<Rightarrow> real list" where
  "setPoint positions i x y z = positions[i * 3 := x, i * 3 + 1 := y, i * 3 + 2 := z]"

text \<open>\<^verbatim>\<open>case ShapeType.HEART\<close>\<close>

definition heartPoint :: "rng \<Rightarrow> (Vector3 \<times> rng) option" where
  "heartPoint s0 =
     (let (d0, s1) = Math_random s0;
          t = d0 * pi * 2
      in do {
        cube \<leftarrow> Math_pow (sin t) 3;
        let x = 16 * cube;
        let y = 13 * cos t - 5 * cos (2 * t) - 2 * cos (3 * t) - cos (4 * t);
        let (r, s2) = Math_random s1;
        (scale, z, s4) \<leftarrow>
          (if r < 0.7 then
             (let (d2, s3) = Math_random s2;
                  scale = 0.95 + d2 * 0.15;
                  (d3, s4) = Math_random s3;
                  z = (d3 - 0.5) * 1.5
              in Some (scale, z, s4))
           else
             (let (d2, s3) = Math_random s2
              in do {
                scale \<leftarrow> Math_pow d2 0.5;
                let (d3, s4) = Math_random s3;
                let z = (d3 - 0.5) * 8.0 * scale;
                Some (scale, z, s4)
              }));
        let x = x * scale;
        let y = y * scale;
        Some ((x * 0.15, y * 0.15, z * 0.15), s4)
      })"

text \<open>\<^verbatim>\<open>case ShapeType.ROSE\<close>\<close>

definition rosePoint :: "rng \<Rightarrow> (Vector3 \<times> rng) option" where
  "rosePoint s0 =
     (let (d0, s1) = Math_random s0;
          isStem = d0 < 0.15
      in if isStem then
           (let (h, s2) = Math_random s1;
                y = - 1.5 - (h * 2.5);
                curveX = sin (y * 2.0) * 0.1;
                (d2, s3) = Math_random s2;
                r = d2 * 0.08;
                (d3, s4) = Math_random s3;
                theta = d3 * pi * 2;
                x = curveX + r * cos theta;
                z = r * sin theta;
                (d4, s5) = Math_random s4
            in if d4 < 0.05 then
                 (let (d5, s6) = Math_random s5;
                      x = x + (d5 - 0.5) * 0.4;
                      (d6, s7) = Math_random s6;
                      z = z + (d6 - 0.5) * 0.4
                  in Some ((x, y, z), s7))
               else Some ((x, y, z), s5))
         else
           (let (v, s2) = Math_random s1;
                (d2, s3) = Math_random s2;
                u = d2 * pi * 2
            in do {
              cup \<leftarrow> Math_pow v 0.6;
              let r = cup * 1.5;
              let petal = sin (u * 3.0 + v * 10.0);
              let r = r + petal * 0.2 * v;
              let x = r * cos u;
              let z = r * sin u;
              let y = (v * 3.0) - 1.5;
              Some ((x, y, z), s3)
            }))"

text \<open>\<^verbatim>\<open>case ShapeType.SATURN\<close>\<close>

definition saturnPoint :: "rng \<Rightarrow> (Vector3 \<times> rng) option" where
  "saturnPoint s0 =
     (let (d0, s1) = Math_random s0;
          isRing = d0 > 0.4
      in if isRing then
           (let (d1, s2) = Math_random s1;
                angle = d1 * pi * 2;
                (d2, s3) = Math_random s2;
                dist = 3 + d2 * 2;
                (d3, s4) = Math_random s3
            in Some ((cos angle * dist, (d3 - 0.5) * 0.1, sin angle * dist), s4))
         else randomPointInSphere 1.8 s1)"

text \<open>\<^verbatim>\<open>case ShapeType.DL\<close>: the letter D (the first half of the particles)\<close>

definition letterD :: "rng \<Rightarrow> (Vector3 \<times> rng) option" where
  "letterD s0 =
     (let (r, s1) = Math_random s0
      in if r < 0.7 then
           (let (d1, s2) = Math_random s1
            in if d1 < 0.4 then
                 (let (d2, s3) = Math_random s2;
                      x = - 2.5 + (d2 - 0.5) * 0.2;
                      (d3, s4) = Math_random s3;
                      y = (d3 - 0.5) * 3.0;
                      (d4, s5) = Math_random s4
                  in Some ((x, y, (d4 - 0.5) * 0.3), s5))
               else
                 (let (d2, s3) = Math_random s2;
                      angle = (d2 - 0.5) * pi;
                      (d3, s4) = Math_random s3;
                      rad = 1.5 + (d3 - 0.5) * 0.2;
                      x = - 2.0 + rad * cos angle;
                      y = rad * sin angle;
                      (d4, s5) = Math_random s4
                  in Some ((x, y, (d4 - 0.5) * 0.3), s5)))
         else
           (let (d1, s2) = Math_random s1
            in if d1 < 0.5 then
                 (let (d2, s3) = Math_random s2;
                      x = - 2.5 + d2 * 0.5;
                      (d3, s4) = Math_random s3;
                      y = (d3 - 0.5) * 2.8;
                      (d4, s5) = Math_random s4
                  in Some ((x, y, (d4 - 0.5) * 0.5), s5))
               else
                 (let (d2, s3) = Math_random s2;
                      angle = (d2 - 0.5) * pi;
                      (d3, s4) = Math_random s3;
                      rad = d3 * 1.5;
                      x = - 2.0 + rad * cos angle;
                      y = rad * sin angle;
                      (d4, s5) = Math_random s4
                  in Some ((max x (- 2.0), y, (d4 - 0.5) * 0.5), s5))))"

text \<open>
  The letter L (the second half). \<open>side\<close> is \<^verbatim>\<open>Math.floor(Math.random() * 6)\<close>; a
  value outside 0..5 matches no \<^verbatim>\<open>case\<close> and leaves \<open>x = 0, y = 0\<close>.
\<close>

definition letterL :: "rng \<Rightarrow> (Vector3 \<times> rng) option" where
  "letterL s0 =
     (let (r, s1) = Math_random s0
      in if r < 0.7 then
           (let (d1, s2) = Math_random s1;
                side = \<lfloor>d1 * 6\<rfloor>;
                jitter = 0.1;
                (x, y, s4) =
                  (if side = 0 then
                     (let (d2, s3) = Math_random s2; x = 1.0 + (d2 - 0.5) * jitter;
                          (d3, s4) = Math_random s3; y = (d3 - 0.5) * 3.0
                      in (x, y, s4))
                   else if side = 1 then
                     (let (d2, s3) = Math_random s2; x = 1.0 + d2 * 0.5;
                          (d3, s4) = Math_random s3; y = 1.5 + (d3 - 0.5) * jitter
                      in (x, y, s4))
                   else if side = 2 then
                     (let (d2, s3) = Math_random s2; x = 1.5 + (d2 - 0.5) * jitter;
                          (d3, s4) = Math_random s3; y = - 1.0 + d3 * 2.5
                      in (x, y, s4))
                   else if side = 3 then
                     (let (d2, s3) = Math_random s2; x = 1.5 + d2 * 1.0;
                          (d3, s4) = Math_random s3; y = - 1.0 + (d3 - 0.5) * jitter
                      in (x, y, s4))
                   else if side = 4 then
                     (let (d2, s3) = Math_random s2; x = 2.5 + (d2 - 0.5) * jitter;
                          (d3, s4) = Math_random s3; y = - 1.5 + d3 * 0.5
                      in (x, y, s4))
                   else if side = 5 then
                     (let (d2, s3) = Math_random s2; x = 1.0 + d2 * 1.5;
                          (d3, s4) = Math_random s3; y = - 1.5 + (d3 - 0.5) * jitter
                      in (x, y, s4))
                   else (0, 0, s2));
                (d4, s5) = Math_random s4
            in Some ((x, y, (d4 - 0.5) * 0.3), s5))
         else
           (let (d1, s2) = Math_random s1
            in if d1 < 0.6 then
                 (let (d2, s3) = Math_random s2;
                      x = 1.0 + d2 * 0.5;
                      (d3, s4) = Math_random s3;
                      y = (d3 - 0.5) * 3.0;
                      (d4, s5) = Math_random s4
                  in Some ((x, y, (d4 - 0.5) * 0.5), s5))
               else
                 (let (d2, s3) = Math_random s2;
                      x = 1.5 + d2 * 1.0;
                      (d3, s4) = Math_random s3;
                      y = - 1.5 + d3 * 0.5;
                      (d4, s5) = Math_random s4
                  in Some ((x, y, (d4 - 0.5) * 0.5), s5))))"

definition dlPoint :: "nat \<Rightarrow> nat \<Rightarrow> rng \<Rightarrow> (Vector3 \<times> rng) option" where
  "dlPoint i count s0 =
     (let isD = real i < real count / 2
      in if isD then letterD s0 else letterL s0)"

text \<open>\<^verbatim>\<open>case ShapeType.TREE\<close>\<close>

definition treePoint :: "rng \<Rightarrow> (Vector3 \<times> rng) option" where
  "treePoint s0 =
     (let (d0, s1) = Math_random s0
      in if d0 > 0.95 then
           do {
             ((px, py, pz), s2) \<leftarrow> randomPointInSphere 0.3 s1;
             Some ((px, py + 2.2, pz), s2)
           }
         else
           (let (h, s2) = Math_random s1;
                maxR = (1.0 - h) * 1.8;
                (d2, s3) = Math_random s2
            in do {
              sq \<leftarrow> Math_sqrt d2;
              let r = sq * maxR;
              let (d3, s4) = Math_random s3;
              let theta = d3 * pi * 2;
              let y = h * 4.0 - 2.0;
              let spiralOffset = sin (y * 10 + theta * 5) * 0.1;
              let x = (r + spiralOffset) * cos theta;
              let z = (r + spiralOffset) * sin theta;
              Some ((x, y, z), s4)
            }))"

text \<open>The \<^verbatim>\<open>switch\<close> of one loop iteration: the point written for particle \<open>i\<close>.\<close>

definition particle :: "ShapeType \<Rightarrow> nat \<Rightarrow> nat \<Rightarrow> rng \<Rightarrow> (Vector3 \<times> rng) option" where
  "particle shape i count s =
     (case shape of
        HEART \<Rightarrow> heartPoint s
      | ROSE \<Rightarrow> rosePoint s
      | SATURN \<Rightarrow> saturnPoint s
      | DL \<Rightarrow> dlPoint i count s
      | TREE \<Rightarrow> treePoint s
      | OTHER \<Rightarrow> Some ((0, 0, 0), s))"

text \<open>The \<^verbatim>\<open>for\<close> loop from \<open>i\<close> on, and the generator.\<close>

function generateLoop ::
  "ShapeType \<Rightarrow> nat \<Rightarrow> nat \<Rightarrow> real list \<Rightarrow> rng \<Rightarrow> (real list \<times> rng) option" where
  "generateLoop shape count i positions s =
     (if i < count then
        (case particle shape i count s of
           None \<Rightarrow> None
         | Some ((x, y, z), s') \<Rightarrow>
             generateLoop shape count (i + 1) (setPoint positions i x y z) s')
      else Some (positions, s))"
  by pat_completeness auto
termination
  by (relation "measure (\<lambda>(shape, count, i, positions, s). count - i)") auto

definition generateParticles :: "ShapeType \<Rightarrow> nat \<Rightarrow> rng \<Rightarrow> (real list \<times> rng) option" where
  "generateParticles shape count s = generateLoop shape count 0 (replicate (count * 3) 0) s"

text \<open>
  The random source \<open>s'\<close> is what \<open>s\<close> becomes after at most \<open>n\<close> calls of
  \<^verbatim>\<open>Math.random()\<close>.
\<close>

definition consumed :: "nat \<Rightarrow> rng \<Rightarrow> rng \<Rightarrow> bool" where
  "consumed n s s' = (\<exists>m \<le> n. s' = sdrop m s)"

section \<open>components/ParticleMesh.tsx: the two buffers\<close>

text \<open>The loop that fills the explosion directions, from index \<open>i\<close> on in steps of 3.\<close>

function randomnessLoop :: "nat \<Rightarrow> nat \<Rightarrow> real list \<Rightarrow> rng \<Rightarrow> real list \<times> rng" where
  "randomnessLoop count i rand s0 =
     (if i < count * 3 then
        (let (d0, s1) = Math_random s0; x = d0 - 0.5;
             (d1, s2) = Math_random s1; y = d1 - 0.5;
             (d2, s3) = Math_random s2; z = d2 - 0.5;
             len = js_or (sqrt (x * x + y * y + z * z)) 1
         in randomnessLoop count (i + 3)
              (rand[i := x / len, i + 1 := y / len, i + 2 := z / len]) s3)
      else (rand, s0))"
  by pat_completeness auto
termination
  by (relation "measure (\<lambda>(count, i, rand, s). count * 3 - i)") auto

text \<open>
  The \<^verbatim>\<open>useMemo\<close> callback: \<open>(positions, randomness)\<close> for a shape and a count, and the
  random source afterwards.
\<close>

definition particleBuffers ::
  "ShapeType \<Rightarrow> nat \<Rightarrow> rng \<Rightarrow> (real list \<times> real list \<times> rng) option" where
  "particleBuffers shape count s0 =
     do {
       (pos, s1) \<leftarrow> generateParticles shape count s0;
       let (rand, s2) = randomnessLoop count 0 (replicate (count * 3) 0) s1;
       Some (pos, rand, s2)
     }"

text \<open>The Euclidean length of a vector, and the vector at slot \<open>k\<close> of a flat buffer.\<close>

definition vlength :: "Vector3 \<Rightarrow> real" where
  "vlength p = (case p of (x, y, z) \<Rightarrow> sqrt (x\<^sup>2 + y\<^sup>2 + z\<^sup>2))"

definition slot :: "real list \<Rightarrow> nat \<Rightarrow> Vector3" where
  "slot buf k = (buf ! (k * 3), buf ! (k * 3 + 1), buf ! (k * 3 + 2))"

text \<open>
  The direction written for one particle, as a function of its three draws (the body of
  the loop above).
\<close>

definition explosionDirection :: "real \<Rightarrow> real \<Rightarrow> real \<Rightarrow> Vector3" where
  "explosionDirection d0 d1 d2 =
     (let x = d0 - 0.5; y = d1 - 0.5; z = d2 - 0.5;
          len = js_or (sqrt (x * x + y * y + z * z)) 1
      in (x / len, y / len, z / len))"

text \<open>
  For the proofs: a vector whose coordinates are at most \<open>b\<close> in magnitude, and a loop
  iteration that produced such a vector and left a random source with draws in \<open>[0, 1)\<close>.
\<close>

definition inBox :: "real \<Rightarrow> Vector3 \<Rightarrow> bool" where
  "inBox b p = (case p of (x, y, z) \<Rightarrow> \<bar>x\<bar> \<le> b \<and> \<bar>y\<bar> \<le> b \<and> \<bar>z\<bar> \<le> b)"

definition okPoint :: "real \<Rightarrow> (Vector3 \<times> rng) option \<Rightarrow> bool" where
  "okPoint b r = (case r of None \<Rightarrow> False | Some (p, s') \<Rightarrow> inBox b p \<and> unitDraws s')"

text \<open>The loop equations are unfolded by hand.\<close>

declare randomnessLoop.simps [simp del] generateLoop.simps [simp del]

section \<open>Properties of calculateGestureData\<close>























lemma calc_two_hands_error:
  assumes "landmarks result = Some [h1, h2]" and "h1 = [] \<or> h2 = []"
  shows "calculateGestureData result = Inl TypeError"
  using assms by (auto simp: calculateGestureData_def js_at_def)


lemma calc_one_hand_error:
  assumes "landmarks result = Some [hand]" and "length hand \<le> 20"
  shows "calculateGestureData result = Inl TypeError"
  using assms by (auto simp: calculateGestureData_def js_at_def split: option.splits)






















text \<open>
  C6. When the number of detected hands is neither 1 nor 2 (no \<open>landmarks\<close> at all, zero
  hands, three or more hands), \<open>calculateGestureData\<close> returns exactly
  \<open>{expansion: 0, lift: 0.5}\<close>.
\<close>

theorem calculateGestureData_default:
  assumes "numHands result \<noteq> 1" and "numHands result \<noteq> 2"
  shows "calculateGestureData result = Inr (Finite \<lparr>expansion = 0, lift = 0.5\<rparr>)"
  using assms by (auto simp: calculateGestureData_def numHands_def split: option.splits)

theorem calculateGestureData_default_witness:
  "calculateGestureData \<lparr>landmarks = Some []\<rparr> = Inr (Finite \<lparr>expansion = 0, lift = 0.5\<rparr>)
   \<and> calculateGestureData \<lparr>landmarks = Some [[], [], []]\<rparr>
       = Inr (Finite \<lparr>expansion = 0, lift = 0.5\<rparr>)
   \<and> calculateGestureData \<lparr>landmarks = None\<rparr> = Inr (Finite \<lparr>expansion = 0, lift = 0.5\<rparr>)"
  using calculateGestureData_default [of "\<lparr>landmarks = Some []\<rparr>"]
        calculateGestureData_default [of "\<lparr>landmarks = Some [[], [], []]\<rparr>"]
        calculateGestureData_default [of "\<lparr>landmarks = None\<rparr>"]
  by (simp add: numHands_def)









section \<open>Properties of the frame callback and of the detection loop\<close>

lemma lerp_toward: "lerp x y t = x + t * (y - x)"
  by (simp add: lerp_def algebra_simps)

lemma toward_tenth: "g + c * ((e + 0.1 * (g - e)) - g) = g + (c * 0.9) * (e - (g::real))"
  by (simp add: field_simps)

lemma toward_twentieth: "g + c * ((e + 0.05 * (g - e)) - g) = g + (c * 0.95) * (e - (g::real))"
  by (simp add: field_simps)

lemma useFrame_expansion:
  "smoothedExpansion (useFrame shape color g t scene) =
     map_option (\<lambda>e. e + 0.1 * (expansion g - e)) (smoothedExpansion scene)"
  by (cases "materialRef scene")
     (simp_all add: useFrame_def smoothedExpansion_def lerp_toward Let_def)

lemma useFrame_tilt:
  "smoothedTilt (useFrame shape color g t scene) =
     map_option (\<lambda>a. a + 0.05 * (targetTilt g - a)) (smoothedTilt scene)"
  by (cases "meshRef scene")
     (simp_all add: useFrame_def smoothedTilt_def lerp_toward Let_def)

lemma runFrames_expansion:
  "smoothedExpansion (runFrames shape color (map (Pair g) ts) scene) =
     map_option (\<lambda>e. expansion g + 0.9 ^ length ts * (e - expansion g)) (smoothedExpansion scene)"
proof (induction ts arbitrary: scene)
  case Nil
  then show ?case by (simp add: option.map_ident)
next
  case (Cons t ts)
  show ?case
    by (cases "smoothedExpansion scene")
       (simp_all only: list.map runFrames.simps Cons.IH useFrame_expansion option.map
          toward_tenth length_Cons power_Suc2)
qed

lemma runFrames_tilt:
  "smoothedTilt (runFrames shape color (map (Pair g) ts) scene) =
     map_option (\<lambda>a. targetTilt g + 0.95 ^ length ts * (a - targetTilt g)) (smoothedTilt scene)"
proof (induction ts arbitrary: scene)
  case Nil
  then show ?case by (simp add: option.map_ident)
next
  case (Cons t ts)
  show ?case
    by (cases "smoothedTilt scene")
       (simp_all only: list.map runFrames.simps Cons.IH useFrame_tilt option.map
          toward_twentieth length_Cons power_Suc2)
qed

lemma smoothedExpansion_mounted:
  "smoothedExpansion \<lparr>materialRef = Some m, meshRef = r\<rparr> = Some (uExpansion m)"
  by (simp add: smoothedExpansion_def)

lemma smoothedTilt_mounted:
  "smoothedTilt \<lparr>materialRef = m, meshRef = Some r\<rparr> = Some (rot_x r)"
  by (simp add: smoothedTilt_def)

text \<open>
  C7. At every render frame the smoothed expansion moves from its value \<open>e\<close> to
  \<open>e + 0.1 * (target - e)\<close>, where the target is the gesture state's expansion, with the
  same weight whether it rises or falls; the smoothed tilt moves from \<open>a\<close> to
  \<open>a + 0.05 * (targetTilt - a)\<close> with \<open>targetTilt = (lift - 0.5) * 1.5\<close>, which lies in
  \<open>[-0.75, 0.75]\<close> for a lift in \<open>[0, 1]\<close>. Over \<open>n\<close> frames with the same gesture
  state the distance to the target shrinks by \<open>0.9 ^ n\<close> (expansion) and \<open>0.95 ^ n\<close>
  (tilt): the approach is exponential.
\<close>

theorem smoothing:
  "smoothedExpansion (useFrame shape color g t scene) =
     map_option (\<lambda>e. e + 0.1 * (expansion g - e)) (smoothedExpansion scene)
   \<and> smoothedTilt (useFrame shape color g t scene) =
     map_option (\<lambda>a. a + 0.05 * (targetTilt g - a)) (smoothedTilt scene)
   \<and> smoothedExpansion (runFrames shape color (map (Pair g) ts) scene) =
     map_option (\<lambda>e. expansion g + 0.9 ^ length ts * (e - expansion g)) (smoothedExpansion scene)
   \<and> smoothedTilt (runFrames shape color (map (Pair g) ts) scene) =
     map_option (\<lambda>a. targetTilt g + 0.95 ^ length ts * (a - targetTilt g)) (smoothedTilt scene)
   \<and> targetTilt g = (lift g - 0.5) * 1.5
   \<and> (0 \<le> lift g \<and> lift g \<le> 1 \<longrightarrow> - 0.75 \<le> targetTilt g \<and> targetTilt g \<le> 0.75)"
  by (simp only: useFrame_expansion useFrame_tilt runFrames_expansion runFrames_tilt)
     (simp add: targetTilt_def)

lemma detectHands_fails:
  "detectionFails env video \<Longrightarrow> detectHands (handLandmarker env) video (now env) = None"
  by (auto simp: detectionFails_def detectHands_def split: option.splits sum.splits)

lemma loop_requests: "framesRequested (loop env st) = framesRequested st + 1"
  by (simp add: loop_def Let_def split: option.splits sum.splits)

lemma runLoop_requests: "framesRequested (runLoop envs st) = framesRequested st + length envs"
  by (induction envs arbitrary: st) (simp_all add: loop_requests)

text \<open>
  C9, as the code has it. When detection fails at a frame whose video is ready (no
  detector, or \<^verbatim>\<open>detectForVideo\<close> throws), \<open>detectHands\<close> returns null, the loop sets
  the displayed hand count to 0 and requests the next animation frame, and it leaves the
  gesture state as it was; however the later frames go, each requests its successor.
\<close>

theorem failed_frame:
  assumes "videoRef env = Some video" and "2 \<le> readyState video"
    and "detectionFails env video"
  shows "detectHands (handLandmarker env) video (now env) = None
     \<and> loop env st = st\<lparr>detectedHands := 0, framesRequested := framesRequested st + 1\<rparr>
     \<and> gestureRef (loop env st) = gestureRef st
     \<and> framesRequested (runLoop envs (loop env st)) = framesRequested st + 1 + length envs"
  using assms detectHands_fails [OF assms(3)]
  by (simp add: loop_def Let_def runLoop_requests)

theorem failed_frame_witness:
  "loop (frameWith (Some throwing)) openState =
     \<lparr>detectedHands = 0, gestureRef = Finite \<lparr>expansion = 1, lift = 0.3\<rparr>, errorLog = [],
      framesRequested = 8\<rparr>
   \<and> loop (frameWith None) openState =
     \<lparr>detectedHands = 0, gestureRef = Finite \<lparr>expansion = 1, lift = 0.3\<rparr>, errorLog = [],
      framesRequested = 8\<rparr>"
  using failed_frame [of "frameWith (Some throwing)" "\<lparr>readyState = 4\<rparr>" openState "[]"]
    failed_frame [of "frameWith None" "\<lparr>readyState = 4\<rparr>" openState "[]"]
  by (simp add: frameWith_def detectionFails_def throwing_def openState_def)

text \<open>
  C9 as stated fails: a frame whose detection throws is not treated as a frame with zero
  hands. After two hands held apart, the failed frame keeps the gesture
  \<open>{expansion: 1, lift: 0.3}\<close>, while a frame that detects no hand resets it to
  \<open>{expansion: 0, lift: 0.5}\<close>.
\<close>

theorem failed_frame_counterexample:
  "gestureRef (loop (frameWith (Some throwing)) openState)
     = Finite \<lparr>expansion = 1, lift = 0.3\<rparr>
   \<and> gestureRef (loop (frameWith (Some noHands)) openState)
     = Finite \<lparr>expansion = 0, lift = 0.5\<rparr>
   \<and> loop (frameWith (Some throwing)) openState \<noteq> loop (frameWith (Some noHands)) openState"
  by (simp add: loop_def frameWith_def throwing_def noHands_def openState_def detectHands_def
        calculateGestureData_def Let_def)

theorem smoothing_witness:
  "smoothedExpansion (useFrame HEART ''#ff007f'' \<lparr>expansion = 1, lift = 1\<rparr> 0
      \<lparr>materialRef = Some \<lparr>uTime = 0, uExpansion = 0, uColor = ''#ff007f''\<rparr>,
       meshRef = Some \<lparr>rot_x = 0, rot_y = 0\<rparr>\<rparr>) = Some 0.1
   \<and> smoothedTilt (useFrame HEART ''#ff007f'' \<lparr>expansion = 1, lift = 1\<rparr> 0
      \<lparr>materialRef = Some \<lparr>uTime = 0, uExpansion = 0, uColor = ''#ff007f''\<rparr>,
       meshRef = Some \<lparr>rot_x = 0, rot_y = 0\<rparr>\<rparr>) = Some 0.0375
   \<and> targetTilt \<lparr>expansion = 1, lift = 1\<rparr> = 0.75"
  using smoothing [of HEART "''#ff007f''" "\<lparr>expansion = 1, lift = 1\<rparr>" 0
      "\<lparr>materialRef = Some \<lparr>uTime = 0, uExpansion = 0, uColor = ''#ff007f''\<rparr>,
       meshRef = Some \<lparr>rot_x = 0, rot_y = 0\<rparr>\<rparr>" "[]"]
  by (simp add: smoothedExpansion_mounted smoothedTilt_mounted)

section \<open>Properties of the generator and of the two buffers\<close>

lemma unitDraws_shd: "unitDraws s \<Longrightarrow> 0 \<le> shd s \<and> shd s < 1"
  by (simp add: unitDraws_def shd_sset)

lemma unitDraws_stl: "unitDraws s \<Longrightarrow> unitDraws (stl s)"
  by (auto simp: unitDraws_def dest: stl_sset)

lemma spherical_length:
  "vlength (r * sin p * cos t, r * sin p * sin t, r * cos p) = \<bar>r\<bar>"
proof -
  have "(r * sin p * cos t)\<^sup>2 + (r * sin p * sin t)\<^sup>2 + (r * cos p)\<^sup>2
      = r\<^sup>2 * ((sin p)\<^sup>2 * ((cos t)\<^sup>2 + (sin t)\<^sup>2) + (cos p)\<^sup>2)"
    by algebra
  also have "\<dots> = r\<^sup>2 * ((sin p)\<^sup>2 * 1 + (cos p)\<^sup>2)"
    by (simp only: sin_cos_squared_add2)
  also have "\<dots> = r\<^sup>2"
    by (simp only: mult_1_right sin_cos_squared_add)
  finally show ?thesis
    by (simp add: vlength_def)
qed

lemma randomPointInSphere_eq:
  assumes "0 \<le> shd (stl s)" and "shd (stl s) < 1"
  shows "randomPointInSphere radius s =
     (let theta = 2 * pi * shd s;
          phi = arccos (2 * shd (stl s) - 1);
          r = root 3 (shd (stl (stl s))) * radius
      in Some ((r * sin phi * cos theta, r * sin phi * sin theta, r * cos phi),
               stl (stl (stl s))))"
  using assms
  by (simp add: randomPointInSphere_def Math_random_def Math_acos_def Math_cbrt_def Let_def)

lemma cbrt_radius:
  assumes "0 \<le> w" and "w < 1" and "0 \<le> radius"
  shows "\<bar>root 3 w * radius\<bar> \<le> radius"
proof -
  have "0 \<le> root 3 w" "root 3 w \<le> 1"
    using assms by simp_all
  then have "root 3 w * radius \<le> 1 * radius"
    using assms(3) by (intro mult_right_mono) simp_all
  moreover have "0 \<le> root 3 w * radius"
    using \<open>0 \<le> root 3 w\<close> assms(3) by simp
  ultimately show ?thesis by simp
qed

lemma randomPointInSphere_within:
  assumes "unitDraws s" and "0 \<le> radius"
  shows "\<exists>p s'. randomPointInSphere radius s = Some (p, s') \<and> vlength p \<le> radius
     \<and> s' = stl (stl (stl s))"
proof -
  have d1: "0 \<le> shd (stl s)" "shd (stl s) < 1"
    using assms(1) unitDraws_shd unitDraws_stl by blast+
  have d2: "0 \<le> shd (stl (stl s))" "shd (stl (stl s)) < 1"
    using assms(1) unitDraws_shd unitDraws_stl by blast+
  show ?thesis
    using cbrt_radius [OF d2 assms(2)]
    by (simp add: randomPointInSphere_eq [OF d1] Let_def spherical_length)
qed

text \<open>
  C10. For every radius \<open>r \<ge> 0\<close> and all draws in \<open>[0, 1)\<close>, \<open>randomPointInSphere\<close>
  returns a point of Euclidean norm at most \<open>r\<close>. So a Saturn particle of the sphere
  body (first draw not above 0.4) lies within 1.8 of the origin, and a Tree particle of
  the star (first draw above 0.95) lies within 0.3 of the centre \<open>(0, 2.2, 0)\<close>.
\<close>

theorem sphere_radius:
  assumes "unitDraws s" and "0 \<le> radius"
  shows "(\<exists>p s'. randomPointInSphere radius s = Some (p, s') \<and> vlength p \<le> radius)
     \<and> (\<not> shd s > 0.4 \<longrightarrow>
          (\<exists>p s'. saturnPoint s = Some (p, s') \<and> vlength p \<le> 1.8))
     \<and> (shd s > 0.95 \<longrightarrow>
          (\<exists>x y z s'. treePoint s = Some ((x, y, z), s') \<and> vlength (x, y - 2.2, z) \<le> 0.3))"
proof -
  have tl: "unitDraws (stl s)" by (rule unitDraws_stl [OF assms(1)])
  from randomPointInSphere_within [OF tl, of "1.8"]
  have sat: "\<not> shd s > 0.4 \<Longrightarrow> \<exists>p s'. saturnPoint s = Some (p, s') \<and> vlength p \<le> 1.8"
    by (auto simp: saturnPoint_def Math_random_def Let_def)
  from randomPointInSphere_within [OF tl, of "0.3"]
  have tree: "shd s > 0.95 \<Longrightarrow>
      \<exists>x y z s'. treePoint s = Some ((x, y, z), s') \<and> vlength (x, y - 2.2, z) \<le> 0.3"
    by (auto simp: treePoint_def Math_random_def Let_def)
  from randomPointInSphere_within [OF assms] sat tree show ?thesis
    by blast
qed

lemma abs_prod_le: "\<bar>a\<bar> \<le> A \<Longrightarrow> \<bar>b\<bar> \<le> B \<Longrightarrow> \<bar>a * b\<bar> \<le> A * (B::real)"
  unfolding abs_mult by (rule mult_mono) auto

lemma abs_times_cos: "\<bar>a\<bar> \<le> b \<Longrightarrow> \<bar>a * cos t\<bar> \<le> (b::real)"
  using abs_prod_le [of a b "cos t" 1] by simp

lemma abs_times_sin: "\<bar>a\<bar> \<le> b \<Longrightarrow> \<bar>a * sin t\<bar> \<le> (b::real)"
  using abs_prod_le [of a b "sin t" 1] by simp

lemma inBoxI: "\<bar>x\<bar> \<le> b \<Longrightarrow> \<bar>y\<bar> \<le> b \<Longrightarrow> \<bar>z\<bar> \<le> b \<Longrightarrow> inBox b (x, y, z)"
  by (simp add: inBox_def)

lemma inBox_if: "inBox b p \<Longrightarrow> inBox b q \<Longrightarrow> inBox b (if c then p else q)"
  by simp

lemma letterD_ok:
  assumes "unitDraws s"
  shows "okPoint 5 (letterD s)"
proof -
  define d2 where "d2 = shd (stl (stl s))"
  define d3 where "d3 = shd (stl (stl (stl s)))"
  define d4 where "d4 = shd (stl (stl (stl (stl s))))"
  define a where "a = (d2 - 0.5) * pi"
  have b: "0 \<le> d2" "d2 < 1" "0 \<le> d3" "d3 < 1" "0 \<le> d4" "d4 < 1"
    using assms unfolding d2_def d3_def d4_def
    by (simp_all add: unitDraws_shd unitDraws_stl)
  have u: "unitDraws (stl (stl (stl (stl (stl s)))))"
    using assms by (simp add: unitDraws_stl)
  have c1: "\<bar>(1.5 + (d3 - 0.5) * 0.2) * cos a\<bar> \<le> 1.6"
    by (rule abs_times_cos) (use b in argo)
  have s1: "\<bar>(1.5 + (d3 - 0.5) * 0.2) * sin a\<bar> \<le> 1.6"
    by (rule abs_times_sin) (use b in argo)
  have c2: "\<bar>d3 * 1.5 * cos a\<bar> \<le> 1.5"
    by (rule abs_times_cos) (use b in argo)
  have s2: "\<bar>d3 * 1.5 * sin a\<bar> \<le> 1.5"
    by (rule abs_times_sin) (use b in argo)
  define P where "P = (if shd s < 0.7 then
              (if shd (stl s) < 0.4
               then (- 2.5 + (d2 - 0.5) * 0.2, (d3 - 0.5) * 3.0, (d4 - 0.5) * 0.3)
               else (- 2.0 + (1.5 + (d3 - 0.5) * 0.2) * cos a,
                     (1.5 + (d3 - 0.5) * 0.2) * sin a, (d4 - 0.5) * 0.3))
            else
              (if shd (stl s) < 0.5 then (- 2.5 + d2 * 0.5, (d3 - 0.5) * 2.8, (d4 - 0.5) * 0.5)
               else (max (- 2.0 + d3 * 1.5 * cos a) (- 2.0),
                     d3 * 1.5 * sin a, (d4 - 0.5) * 0.5)))"
  have eq: "letterD s = Some (P, stl (stl (stl (stl (stl s)))))"
    by (simp add: letterD_def Math_random_def Let_def P_def d2_def d3_def d4_def a_def)
  have "inBox 5 P"
    unfolding P_def
    by (intro inBox_if inBoxI; (use b c1 s1 c2 s2 in argo))
  with eq u show ?thesis by (simp add: okPoint_def)
qed

lemma unit_prefix:
  assumes "unitDraws s"
  shows "0 \<le> shd s" "shd s < 1"
    "0 \<le> shd (stl s)" "shd (stl s) < 1"
    "0 \<le> shd (stl (stl s))" "shd (stl (stl s)) < 1"
    "0 \<le> shd (stl (stl (stl s)))" "shd (stl (stl (stl s))) < 1"
    "0 \<le> shd (stl (stl (stl (stl s))))" "shd (stl (stl (stl (stl s)))) < 1"
    "0 \<le> shd (stl (stl (stl (stl (stl s)))))" "shd (stl (stl (stl (stl (stl s))))) < 1"
    "0 \<le> shd (stl (stl (stl (stl (stl (stl s))))))"
    "shd (stl (stl (stl (stl (stl (stl s)))))) < 1"
  using assms by (simp_all add: unitDraws_shd unitDraws_stl)

lemma letterL_ok:
  assumes "unitDraws s"
  shows "okPoint 5 (letterL s)"
  unfolding letterL_def Math_random_def Let_def
  using unit_prefix [OF assms] assms
  apply (simp add: okPoint_def inBox_def unitDraws_stl split: if_splits)
  apply (intro conjI impI; argo)
  done

lemma okPointI: "r = Some (p, s') \<Longrightarrow> inBox b p \<Longrightarrow> unitDraws s' \<Longrightarrow> okPoint b r"
  by (simp add: okPoint_def)

lemma vlength_coord:
  assumes "vlength (x, y, z) \<le> b"
  shows "\<bar>x\<bar> \<le> b" "\<bar>y\<bar> \<le> b" "\<bar>z\<bar> \<le> b"
proof -
  have "\<bar>x\<bar> = sqrt (x\<^sup>2)" "\<bar>y\<bar> = sqrt (y\<^sup>2)" "\<bar>z\<bar> = sqrt (z\<^sup>2)"
    by simp_all
  moreover have "sqrt (x\<^sup>2) \<le> sqrt (x\<^sup>2 + y\<^sup>2 + z\<^sup>2)"
    "sqrt (y\<^sup>2) \<le> sqrt (x\<^sup>2 + y\<^sup>2 + z\<^sup>2)"
    "sqrt (z\<^sup>2) \<le> sqrt (x\<^sup>2 + y\<^sup>2 + z\<^sup>2)"
    by (simp_all del: real_sqrt_abs)
  ultimately show "\<bar>x\<bar> \<le> b" "\<bar>y\<bar> \<le> b" "\<bar>z\<bar> \<le> b"
    using assms by (simp_all add: vlength_def)
qed

lemma saturnPoint_ok:
  assumes "unitDraws s"
  shows "okPoint 5 (saturnPoint s)"
proof (cases "shd s > 0.4")
  case True
  define angle where "angle = shd (stl s) * pi * 2"
  define d2 where "d2 = shd (stl (stl s))"
  define d3 where "d3 = shd (stl (stl (stl s)))"
  have b: "0 \<le> d2" "d2 < 1" "0 \<le> d3" "d3 < 1"
    using unit_prefix [OF assms] by (simp_all add: d2_def d3_def)
  have eq: "saturnPoint s =
      Some ((cos angle * (3 + d2 * 2), (d3 - 0.5) * 0.1, sin angle * (3 + d2 * 2)),
            stl (stl (stl (stl s))))"
    using True by (simp add: saturnPoint_def Math_random_def Let_def angle_def d2_def d3_def)
  have c: "\<bar>cos angle * (3 + d2 * 2)\<bar> \<le> 5"
    using abs_times_cos [of "3 + d2 * 2" 5 angle] b by (simp add: mult.commute)
  have sn: "\<bar>sin angle * (3 + d2 * 2)\<bar> \<le> 5"
    using abs_times_sin [of "3 + d2 * 2" 5 angle] b by (simp add: mult.commute)
  have "\<bar>(d3 - 0.5) * 0.1\<bar> \<le> 5"
    using b by argo
  with c sn have "inBox 5 (cos angle * (3 + d2 * 2), (d3 - 0.5) * 0.1, sin angle * (3 + d2 * 2))"
    by (intro inBoxI)
  then show ?thesis
    using eq assms by (intro okPointI [OF eq]) (simp_all add: unitDraws_stl)
next
  case False
  from randomPointInSphere_within [OF unitDraws_stl [OF assms], of "1.8"]
  obtain p s' where r: "randomPointInSphere 1.8 (stl s) = Some (p, s')"
    and v: "vlength p \<le> 1.8" and s': "s' = stl (stl (stl (stl s)))"
    by auto
  obtain x y z where p: "p = (x, y, z)" by (cases p) auto
  from vlength_coord [of x y z "1.8"] v p have "inBox 5 p"
    by (simp add: inBox_def)
  moreover have "saturnPoint s = Some (p, s')"
    using False r by (simp add: saturnPoint_def Math_random_def Let_def)
  ultimately show ?thesis
    using assms s' by (intro okPointI [of _ p s']) (simp_all add: unitDraws_stl)
qed

lemma Math_pow_cube: "Math_pow x 3 = Some (x ^ 3)"
  by (simp add: Math_pow_def)

lemma Math_pow_unit:
  assumes "0 \<le> d" and "d < 1" and "0 < e"
  shows "\<exists>p. Math_pow d e = Some p \<and> 0 \<le> p \<and> p \<le> 1"
  using assms by (auto simp: Math_pow_def intro!: powr_le1)

lemma Math_sqrt_unit:
  assumes "0 \<le> d" and "d < 1"
  shows "Math_sqrt d = Some (sqrt d) \<and> 0 \<le> sqrt d \<and> sqrt d \<le> 1"
  using assms by (simp add: Math_sqrt_def)

lemma treePoint_ok:
  assumes "unitDraws s"
  shows "okPoint 5 (treePoint s)"
proof (cases "shd s > 0.95")
  case True
  from randomPointInSphere_within [OF unitDraws_stl [OF assms], of "0.3"]
  obtain p s' where r: "randomPointInSphere 0.3 (stl s) = Some (p, s')"
    and v: "vlength p \<le> 0.3" and s': "s' = stl (stl (stl (stl s)))"
    by auto
  obtain x y z where p: "p = (x, y, z)" by (cases p) auto
  from vlength_coord [of x y z "0.3"] v p
  have c: "\<bar>x\<bar> \<le> 0.3" "\<bar>y\<bar> \<le> 0.3" "\<bar>z\<bar> \<le> 0.3"
    by simp_all
  have eq: "treePoint s = Some ((x, y + 2.2, z), s')"
    using True r p by (simp add: treePoint_def Math_random_def Let_def)
  have "inBox 5 (x, y + 2.2, z)"
    by (intro inBoxI; (use c in argo))
  then show ?thesis
    using assms s' by (intro okPointI [OF eq]) (simp_all add: unitDraws_stl)
next
  case False
  define h where "h = shd (stl s)"
  define d2 where "d2 = shd (stl (stl s))"
  define theta where "theta = shd (stl (stl (stl s))) * pi * 2"
  define r where "r = sqrt d2 * ((1.0 - h) * 1.8)"
  define off where "off = sin ((h * 4.0 - 2.0) * 10 + theta * 5) * 0.1"
  have b: "0 \<le> h" "h < 1" "0 \<le> d2" "d2 < 1"
    using unit_prefix [OF assms] by (simp_all add: h_def d2_def)
  have q: "Math_sqrt d2 = Some (sqrt d2)" "0 \<le> sqrt d2" "sqrt d2 \<le> 1"
    using Math_sqrt_unit [OF b(3,4)] by simp_all
  have eq: "treePoint s =
      Some (((r + off) * cos theta, h * 4.0 - 2.0, (r + off) * sin theta),
            stl (stl (stl (stl s))))"
    using False q(1)
    by (simp add: treePoint_def Math_random_def Let_def h_def [symmetric] d2_def [symmetric]
          theta_def r_def off_def)
  have "\<bar>sqrt d2 * ((1.0 - h) * 1.8)\<bar> \<le> 1 * 1.8"
    by (rule abs_prod_le) (use b q in argo)+
  then have r: "\<bar>r\<bar> \<le> 1.8" by (simp add: r_def)
  have "\<bar>sin ((h * 4.0 - 2.0) * 10 + theta * 5) * 0.1\<bar> \<le> 1 * 0.1"
    by (rule abs_prod_le) simp_all
  then have off: "\<bar>off\<bar> \<le> 0.1" by (simp add: off_def)
  have ro: "\<bar>r + off\<bar> \<le> 1.9" using r off by argo
  have "inBox 5 ((r + off) * cos theta, h * 4.0 - 2.0, (r + off) * sin theta)"
  proof (intro inBoxI)
    show "\<bar>(r + off) * cos theta\<bar> \<le> 5"
      using abs_times_cos [OF ro, of theta] by argo
    show "\<bar>(r + off) * sin theta\<bar> \<le> 5"
      using abs_times_sin [OF ro, of theta] by argo
    show "\<bar>h * 4.0 - 2.0\<bar> \<le> 5"
      using b by argo
  qed
  then show ?thesis
    using assms by (intro okPointI [OF eq]) (simp_all add: unitDraws_stl)
qed

lemma rosePoint_ok:
  assumes "unitDraws s"
  shows "okPoint 5 (rosePoint s)"
proof (cases "shd s < 0.15")
  case True
  define h where "h = shd (stl s)"
  define d2 where "d2 = shd (stl (stl s))"
  define theta where "theta = shd (stl (stl (stl s))) * pi * 2"
  define d4 where "d4 = shd (stl (stl (stl (stl s))))"
  define d5 where "d5 = shd (stl (stl (stl (stl (stl s)))))"
  define d6 where "d6 = shd (stl (stl (stl (stl (stl (stl s))))))"
  define y where "y = - 1.5 - (h * 2.5)"
  define sx where "sx = sin (y * 2.0) * 0.1"
  define cx where "cx = d2 * 0.08 * cos theta"
  define x where "x = sx + cx"
  define z where "z = d2 * 0.08 * sin theta"
  have b: "0 \<le> h" "h < 1" "0 \<le> d2" "d2 < 1" "0 \<le> d5" "d5 < 1" "0 \<le> d6" "d6 < 1"
    using unit_prefix [OF assms] by (simp_all add: h_def d2_def d5_def d6_def)
  have eq: "rosePoint s =
      (if d4 < 0.05
       then Some ((x + (d5 - 0.5) * 0.4, y, z + (d6 - 0.5) * 0.4),
                  stl (stl (stl (stl (stl (stl (stl s)))))))
       else Some ((x, y, z), stl (stl (stl (stl (stl s))))))"
    using True
    by (simp add: rosePoint_def Math_random_def Let_def h_def [symmetric] d2_def [symmetric]
          theta_def d4_def d5_def d6_def x_def sx_def cx_def y_def z_def)
  have "\<bar>sin (y * 2.0) * 0.1\<bar> \<le> 1 * 0.1"
    by (rule abs_prod_le) simp_all
  then have "\<bar>sx\<bar> \<le> 0.1" by (simp add: sx_def)
  moreover have "\<bar>d2 * 0.08 * cos theta\<bar> \<le> 0.08"
    by (rule abs_times_cos) (use b in \<open>argo | simp add: abs_le_iff\<close>)
  then have "\<bar>cx\<bar> \<le> 0.08" by (simp add: cx_def)
  ultimately have bx: "\<bar>x\<bar> \<le> 2"
    unfolding x_def by (simp add: abs_le_iff; linarith)
  have "\<bar>d2 * 0.08 * sin theta\<bar> \<le> 0.08"
    by (rule abs_times_sin) (use b in \<open>argo | simp add: abs_le_iff\<close>)
  then have "\<bar>z\<bar> \<le> 0.08" by (simp add: z_def)
  then have bz: "\<bar>z\<bar> \<le> 1" by (simp add: abs_le_iff; linarith)
  have by': "\<bar>y\<bar> \<le> 5"
    unfolding y_def using b by argo
  have "inBox 5 (x + (d5 - 0.5) * 0.4, y, z + (d6 - 0.5) * 0.4)"
    by (intro inBoxI; (use b bx by' bz in argo))
  moreover have "inBox 5 (x, y, z)"
    by (intro inBoxI; (use bx by' bz in argo))
  ultimately show ?thesis
    using assms by (simp add: eq okPoint_def unitDraws_stl)
next
  case False
  define v where "v = shd (stl s)"
  define u where "u = shd (stl (stl s)) * pi * 2"
  have b: "0 \<le> v" "v < 1"
    using unit_prefix [OF assms] by (simp_all add: v_def)
  from Math_pow_unit [OF b, of "0.6"] obtain cup
    where cup: "Math_pow v 0.6 = Some cup" "0 \<le> cup" "cup \<le> 1"
    by auto
  define r where "r = cup * 1.5 + sin (u * 3.0 + v * 10.0) * 0.2 * v"
  have eq: "rosePoint s = Some ((r * cos u, (v * 3.0) - 1.5, r * sin u), stl (stl (stl s)))"
    using False cup(1)
    by (simp add: rosePoint_def Math_random_def Let_def v_def [symmetric] u_def r_def)
  have "\<bar>sin (u * 3.0 + v * 10.0) * 0.2\<bar> \<le> 1 * 0.2"
    by (rule abs_prod_le) simp_all
  then have "\<bar>sin (u * 3.0 + v * 10.0) * 0.2 * v\<bar> \<le> 1 * 0.2 * 1"
    by (rule abs_prod_le) (use b in \<open>argo | simp add: abs_le_iff\<close>)
  then have br: "\<bar>r\<bar> \<le> 1.7"
    unfolding r_def using cup(2,3) by argo
  have "inBox 5 (r * cos u, (v * 3.0) - 1.5, r * sin u)"
  proof (intro inBoxI)
    show "\<bar>r * cos u\<bar> \<le> 5"
      using abs_times_cos [OF br, of u] by argo
    show "\<bar>r * sin u\<bar> \<le> 5"
      using abs_times_sin [OF br, of u] by argo
    show "\<bar>v * 3.0 - 1.5\<bar> \<le> 5"
      using b by argo
  qed
  then show ?thesis
    using assms by (intro okPointI [OF eq]) (simp_all add: unitDraws_stl)
qed

lemma heart_y_bound:
  "\<bar>13 * cos t - 5 * cos (2 * t) - 2 * cos (3 * t) - cos (4 * t)\<bar> \<le> (21::real)"
proof -
  have "\<bar>cos t\<bar> \<le> 1" "\<bar>cos (2 * t)\<bar> \<le> 1" "\<bar>cos (3 * t)\<bar> \<le> 1" "\<bar>cos (4 * t)\<bar> \<le> 1"
    by simp_all
  then show ?thesis by argo
qed

lemma heartPoint_ok:
  assumes "unitDraws s"
  shows "okPoint 5 (heartPoint s)"
proof -
  define t where "t = shd s * pi * 2"
  define d2 where "d2 = shd (stl (stl s))"
  define d3 where "d3 = shd (stl (stl (stl s)))"
  define ysum where "ysum = 13 * cos t - 5 * cos (2 * t) - 2 * cos (3 * t) - cos (4 * t)"
  have b: "0 \<le> d2" "d2 < 1" "0 \<le> d3" "d3 < 1"
    using unit_prefix [OF assms] by (simp_all add: d2_def d3_def)
  from Math_pow_unit [OF b(1,2), of "0.5"] obtain pw
    where pw: "Math_pow d2 0.5 = Some pw" "0 \<le> pw" "pw \<le> 1"
    by auto
  define scale where "scale = (if shd (stl s) < 0.7 then 0.95 + d2 * 0.15 else pw)"
  define X where "X = 16 * sin t ^ 3 * scale"
  define Y where "Y = ysum * scale"
  define Z where "Z = (if shd (stl s) < 0.7 then (d3 - 0.5) * 1.5 else (d3 - 0.5) * 8.0 * pw)"
  have eq: "heartPoint s = Some ((X * 0.15, Y * 0.15, Z * 0.15), stl (stl (stl (stl s))))"
    using pw(1)
    by (simp add: heartPoint_def Math_random_def Let_def Math_pow_cube t_def
          d2_def d3_def ysum_def scale_def X_def Y_def Z_def)
  have sc: "\<bar>scale\<bar> \<le> 1.1"
    unfolding scale_def using b pw by (simp add: abs_le_iff; linarith)
  have "\<bar>sin t ^ 3\<bar> \<le> 1"
    by (simp add: power_abs power_le_one)
  then have "\<bar>16 * sin t ^ 3\<bar> \<le> 16"
    by (simp add: abs_mult)
  then have "\<bar>16 * sin t ^ 3 * scale\<bar> \<le> 16 * 1.1"
    using sc by (rule abs_prod_le)
  then have bx: "\<bar>X\<bar> \<le> 17.6"
    by (simp add: X_def)
  have "\<bar>ysum\<bar> \<le> 21"
    unfolding ysum_def by (rule heart_y_bound)
  then have "\<bar>ysum * scale\<bar> \<le> 21 * 1.1"
    using sc by (rule abs_prod_le)
  then have by': "\<bar>Y\<bar> \<le> 23.1"
    by (simp add: Y_def)
  have "\<bar>(d3 - 0.5) * 8.0\<bar> \<le> 4"
    using b by argo
  then have "\<bar>(d3 - 0.5) * 8.0 * pw\<bar> \<le> 4 * 1"
    by (rule abs_prod_le) (use pw in argo)
  moreover have "\<bar>(d3 - 0.5) * 1.5\<bar> \<le> 4"
    using b by argo
  ultimately have bz: "\<bar>Z\<bar> \<le> 4"
    unfolding Z_def by (simp split: if_splits)
  have "inBox 5 (X * 0.15, Y * 0.15, Z * 0.15)"
    by (intro inBoxI; (use bx by' bz in \<open>simp add: abs_le_iff; linarith\<close>))
  then show ?thesis
    using assms by (intro okPointI [OF eq]) (simp_all add: unitDraws_stl)
qed

lemma particle_ok:
  assumes "unitDraws s"
  shows "okPoint 5 (particle shape i count s)"
proof (cases shape)
  case OTHER
  then show ?thesis using assms by (simp add: particle_def okPoint_def inBox_def)
next
  case DL
  then show ?thesis
    using letterD_ok [OF assms] letterL_ok [OF assms]
    by (simp add: particle_def dlPoint_def Let_def)
qed (simp_all add: particle_def heartPoint_ok rosePoint_ok saturnPoint_ok treePoint_ok assms)

lemma setPoint_length: "length (setPoint positions i x y z) = length positions"
  by (simp add: setPoint_def)

lemma in_set_updD: "c \<in> set (xs[i := v]) \<Longrightarrow> c = v \<or> c \<in> set xs"
  using set_update_subset_insert [of xs i v] by auto

lemma setPoint_bound:
  assumes "\<forall>c \<in> set positions. \<bar>c\<bar> \<le> b" and "inBox b (x, y, z)"
  shows "\<forall>c \<in> set (setPoint positions i x y z). \<bar>c\<bar> \<le> b"
proof
  fix c assume "c \<in> set (setPoint positions i x y z)"
  then have "c \<in> insert z (insert y (insert x (set positions)))"
    unfolding setPoint_def
    by (auto dest!: in_set_updD)
  with assms show "\<bar>c\<bar> \<le> b"
    by (auto simp: inBox_def)
qed

lemma generateLoop_ok:
  assumes "unitDraws s" and "\<forall>c \<in> set positions. \<bar>c\<bar> \<le> 5"
  shows "\<exists>buf s'. generateLoop shape count i positions s = Some (buf, s')
     \<and> length buf = length positions \<and> (\<forall>c \<in> set buf. \<bar>c\<bar> \<le> 5) \<and> unitDraws s'"
  using assms
proof (induction shape count i positions s rule: generateLoop.induct)
  case (1 shape count i positions s)
  show ?case
  proof (cases "i < count")
    case True
    from particle_ok [OF "1.prems"(1), of shape i count]
    obtain x y z s' where p: "particle shape i count s = Some ((x, y, z), s')"
      and box: "inBox 5 (x, y, z)" and u: "unitDraws s'"
      by (auto simp: okPoint_def split: option.splits)
    from "1.IH" [OF True p refl refl refl u setPoint_bound [OF "1.prems"(2) box]]
    show ?thesis
      using True p by (subst generateLoop.simps) (simp add: setPoint_length)
  next
    case False
    then show ?thesis
      using "1.prems" by (subst generateLoop.simps) simp
  qed
qed

lemma generateParticles_ok:
  assumes "unitDraws s"
  shows "\<exists>buf s'. generateParticles shape N s = Some (buf, s')
     \<and> length buf = 3 * N \<and> (\<forall>c \<in> set buf. \<bar>c\<bar> \<le> 5) \<and> unitDraws s'"
  using generateLoop_ok [OF assms, of "replicate (N * 3) 0" shape N 0]
  by (auto simp: generateParticles_def)

text \<open>The generator takes at most seven draws for a particle, whatever the branch.\<close>

lemma consumed_stl:
  "consumed 7 s s"
  "consumed 7 s (stl (stl (stl s)))"
  "consumed 7 s (stl (stl (stl (stl s))))"
  "consumed 7 s (stl (stl (stl (stl (stl s)))))"
  "consumed 7 s (stl (stl (stl (stl (stl (stl (stl s)))))))"
proof -
  have "s = sdrop 0 s" "stl (stl (stl s)) = sdrop 3 s" "stl (stl (stl (stl s))) = sdrop 4 s"
    "stl (stl (stl (stl (stl s)))) = sdrop 5 s"
    "stl (stl (stl (stl (stl (stl (stl s)))))) = sdrop 7 s"
    by (simp_all add: eval_nat_numeral)
  then show "consumed 7 s s"
    "consumed 7 s (stl (stl (stl s)))"
    "consumed 7 s (stl (stl (stl (stl s))))"
    "consumed 7 s (stl (stl (stl (stl (stl s)))))"
    "consumed 7 s (stl (stl (stl (stl (stl (stl (stl s)))))))"
    unfolding consumed_def by (metis le_numeral_extra(4) numeral_le_iff semiring_norm(68,69,72,73) zero_le)+
qed

lemma sphere_consumed:
  "randomPointInSphere radius s = Some (p, s') \<Longrightarrow> s' = stl (stl (stl s))"
  by (auto simp: randomPointInSphere_def Math_random_def Let_def split: Option.bind_splits)

lemma heart_consumed: "heartPoint s = Some (p, s') \<Longrightarrow> consumed 7 s s'"
  by (auto simp: heartPoint_def Math_random_def Let_def consumed_stl
      split: Option.bind_splits if_splits)

lemma rose_consumed: "rosePoint s = Some (p, s') \<Longrightarrow> consumed 7 s s'"
  by (auto simp: rosePoint_def Math_random_def Let_def consumed_stl
      split: Option.bind_splits if_splits)

lemma saturn_consumed: "saturnPoint s = Some (p, s') \<Longrightarrow> consumed 7 s s'"
  by (auto simp: saturnPoint_def Math_random_def Let_def consumed_stl
      split: if_splits dest!: sphere_consumed)

lemma letterD_consumed: "letterD s = Some (p, s') \<Longrightarrow> consumed 7 s s'"
  by (auto simp: letterD_def Math_random_def Let_def consumed_stl split: if_splits)

lemma letterL_consumed: "letterL s = Some (p, s') \<Longrightarrow> consumed 7 s s'"
  by (auto simp: letterL_def Math_random_def Let_def consumed_stl split: if_splits)

lemma tree_consumed: "treePoint s = Some (p, s') \<Longrightarrow> consumed 7 s s'"
  by (auto simp: treePoint_def Math_random_def Let_def consumed_stl
      split: Option.bind_splits if_splits dest!: sphere_consumed)

lemma particle_consumed: "particle shape i count s = Some (p, s') \<Longrightarrow> consumed 7 s s'"
  by (cases shape)
     (auto simp: particle_def dlPoint_def Let_def consumed_stl split: if_splits
        dest: heart_consumed rose_consumed saturn_consumed letterD_consumed letterL_consumed
          tree_consumed)

lemma consumed_trans: "consumed n s s' \<Longrightarrow> consumed m s' s'' \<Longrightarrow> consumed (n + m) s s''"
  unfolding consumed_def by (metis add_mono sdrop_add)

lemma consumed_mono: "consumed n s s' \<Longrightarrow> n \<le> m \<Longrightarrow> consumed m s s'"
  unfolding consumed_def using le_trans by blast

lemma generateLoop_consumed:
  "generateLoop shape count i positions s = Some (buf, s') \<Longrightarrow> consumed (7 * (count - i)) s s'"
proof (induction shape count i positions s rule: generateLoop.induct)
  case (1 shape count i positions s)
  show ?case
  proof (cases "i < count")
    case True
    with "1.prems" obtain x y z s1 where p: "particle shape i count s = Some ((x, y, z), s1)"
      and g: "generateLoop shape count (i + 1) (setPoint positions i x y z) s1 = Some (buf, s')"
      by (subst (asm) generateLoop.simps) (auto split: option.splits)
    from "1.IH" [OF True p refl refl refl g]
    have "consumed (7 * (count - (i + 1))) s1 s'" .
    with particle_consumed [OF p] have "consumed (7 + 7 * (count - (i + 1))) s s'"
      by (rule consumed_trans)
    moreover have "7 + 7 * (count - (i + 1)) \<le> 7 * (count - i)"
      using True by simp
    ultimately show ?thesis by (rule consumed_mono)
  next
    case False
    with "1.prems" have "s' = s"
      by (subst (asm) generateLoop.simps) simp
    moreover have "consumed (7 * (count - i)) s (sdrop 0 s)"
      unfolding consumed_def by blast
    ultimately show ?thesis by simp
  qed
qed

lemma generateParticles_consumed:
  "generateParticles shape N s = Some (buf, s') \<Longrightarrow> consumed (7 * N) s s'"
  using generateLoop_consumed [of shape N 0 "replicate (N * 3) 0" s buf s']
  by (simp add: generateParticles_def)

text \<open>
  C1, as the code has it. For every shape selector (the five shapes and any other value)
  and every particle count \<open>N\<close>, with the draws of the random source in \<open>[0, 1)\<close>,
  \<open>generateParticles\<close> returns a buffer of exactly \<open>3 * N\<close> components, each a finite
  number: no \<^verbatim>\<open>Math\<close> function is applied where its result is \<^verbatim>\<open>NaN\<close> or infinite
  (the result is \<open>Some\<close>), and every component is at most 5 in magnitude. The buffer is
  allocated by the call. The function does read and write state that is shared across
  calls, the random source, and only that: it leaves it advanced by the \<open>k\<close> draws it
  took, at most seven for a particle.
\<close>

theorem generateParticles_buffer:
  assumes "unitDraws s"
  shows "\<exists>buf k. generateParticles shape N s = Some (buf, sdrop k s) \<and> k \<le> 7 * N
     \<and> length buf = 3 * N \<and> (\<forall>c \<in> set buf. \<bar>c\<bar> \<le> 5)"
proof -
  from generateParticles_ok [OF assms, of shape N]
  obtain buf s' where g: "generateParticles shape N s = Some (buf, s')"
    and b: "length buf = 3 * N" "\<forall>c \<in> set buf. \<bar>c\<bar> \<le> 5"
    by blast
  from generateParticles_consumed [OF g] obtain k where "k \<le> 7 * N" "s' = sdrop k s"
    by (auto simp: consumed_def)
  with g b show ?thesis by blast
qed

lemma eval_DL:
  "generateParticles DL 2 (sconst (1 / 2)) = Some ([- 1 / 2, 0, 0, 2, - 1, 0], sconst (1 / 2))"
  by (simp add: generateParticles_def generateLoop.simps particle_def dlPoint_def letterD_def
        letterL_def Math_random_def Let_def setPoint_def eval_nat_numeral)

lemma explosionDirection_unit:
  assumes "\<not> (d0 = 0.5 \<and> d1 = 0.5 \<and> d2 = 0.5)"
  shows "vlength (explosionDirection d0 d1 d2) = 1"
proof -
  define x y z where "x = d0 - 0.5" and "y = d1 - 0.5" and "z = d2 - 0.5"
  define q where "q = x\<^sup>2 + y\<^sup>2 + z\<^sup>2"
  have "x \<noteq> 0 \<or> y \<noteq> 0 \<or> z \<noteq> 0"
    using assms by (auto simp: x_def y_def z_def)
  then have q: "0 < q"
    unfolding q_def by (metis add_pos_nonneg add_nonneg_pos zero_less_power2 zero_le_power2 add_nonneg_nonneg)
  then have len: "sqrt q \<noteq> 0" by simp
  have "(x / sqrt q)\<^sup>2 + (y / sqrt q)\<^sup>2 + (z / sqrt q)\<^sup>2
      = (x\<^sup>2 + y\<^sup>2 + z\<^sup>2) / (sqrt q)\<^sup>2"
    by (simp only: power_divide add_divide_distrib)
  also have "\<dots> = q / q" using q by (simp add: q_def)
  also have "\<dots> = 1" using q by simp
  finally have "vlength (x / sqrt q, y / sqrt q, z / sqrt q) = 1"
    by (simp add: vlength_def)
  moreover have "explosionDirection d0 d1 d2 = (x / sqrt q, y / sqrt q, z / sqrt q)"
    using len by (simp add: explosionDirection_def Let_def js_or_def x_def y_def z_def q_def
        power2_eq_square)
  ultimately show ?thesis by simp
qed

lemma explosionDirection_zero: "explosionDirection 0.5 0.5 0.5 = (0, 0, 0)"
  by (simp add: explosionDirection_def Let_def js_or_def)

lemma explosionDirection_cases:
  "if d0 = 0.5 \<and> d1 = 0.5 \<and> d2 = 0.5
   then explosionDirection d0 d1 d2 = (0, 0, 0)
   else vlength (explosionDirection d0 d1 d2) = 1"
proof (cases "d0 = 0.5 \<and> d1 = 0.5 \<and> d2 = 0.5")
  case True
  then have "explosionDirection d0 d1 d2 = explosionDirection 0.5 0.5 0.5"
    by (simp only:)
  with True show ?thesis
    by (simp only: explosionDirection_zero if_True simp_thms)
next
  case False
  with explosionDirection_unit [OF False] show ?thesis
    by (simp only: if_False)
qed

lemma randomnessLoop_step:
  "i < count * 3 \<Longrightarrow> randomnessLoop count i rand s =
     (case explosionDirection (shd s) (shd (stl s)) (shd (stl (stl s))) of
        (a, b, c) \<Rightarrow> randomnessLoop count (i + 3) (rand[i := a, i + 1 := b, i + 2 := c])
                      (stl (stl (stl s))))"
  by (subst randomnessLoop.simps)
     (simp add: Math_random_def Let_def explosionDirection_def)

lemma randomnessLoop_stop:
  "\<not> i < count * 3 \<Longrightarrow> randomnessLoop count i rand s = (rand, s)"
  by (subst randomnessLoop.simps) simp

lemma randomnessLoop_length:
  "length (fst (randomnessLoop count i rand s)) = length rand"
proof (induction "count * 3 - i" arbitrary: i rand s rule: less_induct)
  case less
  show ?case
  proof (cases "i < count * 3")
    case True
    obtain a b c where e: "explosionDirection (shd s) (shd (stl s)) (shd (stl (stl s))) = (a, b, c)"
      by (cases "explosionDirection (shd s) (shd (stl s)) (shd (stl (stl s)))") auto
    have "count * 3 - (i + 3) < count * 3 - i" using True by simp
    from less [OF this] show ?thesis
      by (simp add: randomnessLoop_step [OF True] e)
  next
    case False
    then show ?thesis by (simp add: randomnessLoop_stop)
  qed
qed

lemma stl3_snth: "stl (stl (stl s)) !! m = s !! (m + 3)"
  by (simp add: eval_nat_numeral)

lemma randomnessLoop_slots:
  assumes "length rand = count * 3" and "i = j * 3"
  shows "(\<forall>n < i. fst (randomnessLoop count i rand s) ! n = rand ! n)
     \<and> (\<forall>k. j \<le> k \<and> k < count \<longrightarrow>
          slot (fst (randomnessLoop count i rand s)) k =
            explosionDirection (s !! ((k - j) * 3)) (s !! ((k - j) * 3 + 1))
              (s !! ((k - j) * 3 + 2)))"
  using assms
proof (induction "count * 3 - i" arbitrary: i j rand s rule: less_induct)
  case less
  show ?case
  proof (cases "i < count * 3")
    case True
    obtain a b c where e: "explosionDirection (shd s) (shd (stl s)) (shd (stl (stl s))) = (a, b, c)"
      by (cases "explosionDirection (shd s) (shd (stl s)) (shd (stl (stl s)))") auto
    define rand1 where "rand1 = rand[i := a, i + 1 := b, i + 2 := c]"
    define out where "out = fst (randomnessLoop count (i + 3) rand1 (stl (stl (stl s))))"
    have out: "fst (randomnessLoop count i rand s) = out"
      by (simp add: randomnessLoop_step [OF True] e out_def rand1_def)
    have m: "count * 3 - (i + 3) < count * 3 - i" using True by simp
    have len1: "length rand1 = count * 3" using less.prems by (simp add: rand1_def)
    have i3: "i + 3 = Suc j * 3" using less.prems by simp
    from less.hyps [OF m len1 i3, of "stl (stl (stl s))"]
    have keep: "\<forall>n < i + 3. out ! n = rand1 ! n"
      and later: "\<forall>k. Suc j \<le> k \<and> k < count \<longrightarrow>
          slot out k = explosionDirection (stl (stl (stl s)) !! ((k - Suc j) * 3))
             (stl (stl (stl s)) !! ((k - Suc j) * 3 + 1))
             (stl (stl (stl s)) !! ((k - Suc j) * 3 + 2))"
      by (simp_all add: out_def)
    have inr: "i + 2 < length rand" using True less.prems by simp
    have r1: "rand1 ! i = a" "rand1 ! (i + 1) = b" "rand1 ! (i + 2) = c"
      using inr by (simp_all add: rand1_def)
    have old: "\<forall>n < i. rand1 ! n = rand ! n"
      by (simp add: rand1_def)
    have first: "slot out j = explosionDirection (s !! 0) (s !! 1) (s !! 2)"
      using keep r1 less.prems(2) e
      by (simp add: slot_def eval_nat_numeral)
    have "\<forall>n < i. out ! n = rand ! n"
      using keep old by simp
    moreover have "\<forall>k. j \<le> k \<and> k < count \<longrightarrow>
          slot out k = explosionDirection (s !! ((k - j) * 3)) (s !! ((k - j) * 3 + 1))
              (s !! ((k - j) * 3 + 2))"
    proof (intro allI impI)
      fix k assume k: "j \<le> k \<and> k < count"
      show "slot out k = explosionDirection (s !! ((k - j) * 3)) (s !! ((k - j) * 3 + 1))
              (s !! ((k - j) * 3 + 2))"
      proof (cases "k = j")
        case True
        then show ?thesis using first by (simp add: eval_nat_numeral)
      next
        case False
        then have sk: "Suc j \<le> k \<and> k < count" using k by simp
        then have "(k - Suc j) * 3 + 3 = (k - j) * 3" by (simp add: algebra_simps)
        then have "(k - Suc j) * 3 + 3 = (k - j) * 3"
          "(k - Suc j) * 3 + 1 + 3 = (k - j) * 3 + 1"
          "(k - Suc j) * 3 + 2 + 3 = (k - j) * 3 + 2"
          by simp_all
        with later sk show ?thesis
          by (simp only: stl3_snth)
      qed
    qed
    ultimately show ?thesis
      by (simp only: out)
  next
    case False
    then have "\<not> (\<exists>k. j \<le> k \<and> k < count)"
      using less.prems(2) by auto
    then show ?thesis
      using False by (auto simp: randomnessLoop_stop)
  qed
qed

text \<open>
  C5, as the code has it. The explosion-direction buffer made with the position buffer
  has \<open>3 * count\<close> components, as many as the position buffer. The vector of particle
  \<open>k\<close> is computed from three draws (those that follow the draws of the generator); it
  has Euclidean length 1, unless the three draws are all exactly 0.5: then the length
  guard \<^verbatim>\<open>|| 1\<close> applies and the vector is the zero vector.
\<close>

theorem explosion_buffer:
  assumes "unitDraws s"
  shows "\<exists>pos rand s1 s2. particleBuffers shape count s = Some (pos, rand, s2)
     \<and> generateParticles shape count s = Some (pos, s1)
     \<and> length rand = 3 * count \<and> length pos = length rand
     \<and> (\<forall>k < count.
           slot rand k = explosionDirection (s1 !! (k * 3)) (s1 !! (k * 3 + 1)) (s1 !! (k * 3 + 2))
           \<and> (if s1 !! (k * 3) = 0.5 \<and> s1 !! (k * 3 + 1) = 0.5 \<and> s1 !! (k * 3 + 2) = 0.5
              then slot rand k = (0, 0, 0) else vlength (slot rand k) = 1))"
proof -
  from generateParticles_ok [OF assms, of shape count]
  obtain pos s1 where g: "generateParticles shape count s = Some (pos, s1)"
    and lp: "length pos = 3 * count"
    by blast
  define rand where "rand = fst (randomnessLoop count 0 (replicate (count * 3) 0) s1)"
  define s2 where "s2 = snd (randomnessLoop count 0 (replicate (count * 3) 0) s1)"
  have pb: "particleBuffers shape count s = Some (pos, rand, s2)"
    by (simp add: particleBuffers_def g rand_def s2_def split: prod.splits)
  have lr: "length rand = 3 * count"
    by (simp add: rand_def randomnessLoop_length)
  from randomnessLoop_slots [of "replicate (count * 3) 0" count 0 0 s1]
  have sl: "\<forall>k < count. slot rand k =
      explosionDirection (s1 !! (k * 3)) (s1 !! (k * 3 + 1)) (s1 !! (k * 3 + 2))"
    by (simp add: rand_def)
  have dirs: "\<forall>k < count.
           slot rand k = explosionDirection (s1 !! (k * 3)) (s1 !! (k * 3 + 1)) (s1 !! (k * 3 + 2))
           \<and> (if s1 !! (k * 3) = 0.5 \<and> s1 !! (k * 3 + 1) = 0.5 \<and> s1 !! (k * 3 + 2) = 0.5
              then slot rand k = (0, 0, 0) else vlength (slot rand k) = 1)"
  proof (intro allI impI conjI)
    fix k assume k: "k < count"
    from sl k show e: "slot rand k =
        explosionDirection (s1 !! (k * 3)) (s1 !! (k * 3 + 1)) (s1 !! (k * 3 + 2))"
      by blast
    show "if s1 !! (k * 3) = 0.5 \<and> s1 !! (k * 3 + 1) = 0.5 \<and> s1 !! (k * 3 + 2) = 0.5
          then slot rand k = (0, 0, 0) else vlength (slot rand k) = 1"
      unfolding e by (rule explosionDirection_cases)
  qed
  have "length pos = length rand"
    using lp lr by simp
  with pb g lr dirs show ?thesis
    by blast
qed

lemma eval_zero_direction:
  "particleBuffers DL 1 (sconst (1 / 2)) = Some ([- 1 / 2, 0, 0], [0, 0, 0], sconst (1 / 2))"
  by (simp add: particleBuffers_def generateParticles_def generateLoop.simps particle_def
        dlPoint_def letterD_def Math_random_def Let_def setPoint_def eval_nat_numeral
        randomnessLoop.simps js_or_def)

text \<open>
  C8. A particle of letter D (the first half of the indices) that is assigned to the
  interior fill (first draw not below 0.7) and there to the arc (second draw not below
  0.5) is written with the first coordinate \<open>max x (-2.0)\<close> of the sampled
  \<open>x = -2.0 + rad * cos angle\<close>: no point left of the arc's centre line \<open>x = -2.0\<close> is
  produced.
\<close>

theorem arc_fill_guard:
  assumes "real i < real count / 2" and "\<not> shd s < 0.7" and "\<not> shd (stl s) < 0.5"
  shows "let angle = (s !! 2 - 0.5) * pi; rad = s !! 3 * 1.5; x = - 2.0 + rad * cos angle in
     dlPoint i count s = Some ((max x (- 2.0), rad * sin angle, (s !! 4 - 0.5) * 0.5), sdrop 5 s)
     \<and> - 2.0 \<le> max x (- 2.0)"
  using assms
  by (simp add: dlPoint_def letterD_def Math_random_def Let_def eval_nat_numeral)

section \<open>The generator and the buffers at concrete random sources\<close>

text \<open>
  With every draw equal to 0.5, two DL particles are the point of the D's outer arc at
  angle 0 and a point of the L's inner horizontal edge. One DL particle takes five draws:
  after the draws 0.5, 0.5, 0.5, 0.5, 0.5 the random source is at its sixth draw.
\<close>

lemma eval_DL_half:
  "generateParticles DL 1 (1 / 2 ## 1 / 2 ## 1 / 2 ## 1 / 2 ## 1 / 2 ## sconst 0)
     = Some ([- 1 / 2, 0, 0], sconst 0)"
  by (simp add: generateParticles_def generateLoop.simps particle_def dlPoint_def letterD_def
        letterL_def Math_random_def Let_def setPoint_def eval_nat_numeral)

lemma eval_DL_zero:
  "generateParticles DL 1 (sconst 0) = Some ([- 13 / 5, - 3 / 2, - 3 / 20], sconst 0)"
  by (simp add: generateParticles_def generateLoop.simps particle_def dlPoint_def letterD_def
        letterL_def Math_random_def Let_def setPoint_def eval_nat_numeral)

theorem generateParticles_buffer_witness:
  "unitDraws (1 / 2 ## 1 / 2 ## 1 / 2 ## 1 / 2 ## 1 / 2 ## sconst 0)
   \<and> generateParticles DL 1 (1 / 2 ## 1 / 2 ## 1 / 2 ## 1 / 2 ## 1 / 2 ## sconst 0)
       = Some ([- 1 / 2, 0, 0], sconst 0)
   \<and> (\<exists>k \<le> 7. sconst (0::real) = sdrop k (1 / 2 ## 1 / 2 ## 1 / 2 ## 1 / 2 ## 1 / 2 ## sconst 0))
   \<and> unitDraws (sconst (1 / 2))
   \<and> generateParticles DL 2 (sconst (1 / 2)) = Some ([- 1 / 2, 0, 0, 2, - 1, 0], sconst (1 / 2))"
proof -
  let ?s = "1 / 2 ## 1 / 2 ## 1 / 2 ## 1 / 2 ## 1 / 2 ## sconst (0::real)"
  have u: "unitDraws ?s" "unitDraws (sconst (1 / 2))"
    by (simp_all add: unitDraws_def)
  from generateParticles_buffer [OF u(1), of DL 1]
  obtain buf k where g: "generateParticles DL 1 ?s = Some (buf, sdrop k ?s)" and k: "k \<le> 7 * 1"
    by blast
  from g have "Some ([- 1 / 2, 0, 0], sconst 0) = Some (buf, sdrop k ?s)"
    by (simp only: eval_DL_half)
  then have e: "sconst 0 = sdrop k ?s"
    by (simp only: option.inject prod.inject)
  from k have "k \<le> 7" by (simp only: mult_1_right)
  with e have x: "\<exists>k \<le> 7. sconst 0 = sdrop k ?s"
    by (intro exI [of _ k] conjI)
  show ?thesis
    by (intro conjI) (rule u eval_DL_half x eval_DL)+
qed

text \<open>
  C1 as stated fails: the random source is state shared across calls. The call above
  leaves it at the draws 0, 0, \<open>\<dots>\<close>, and the next call with the same arguments reads
  them and returns another buffer.
\<close>

theorem generateParticles_buffer_counterexample:
  "generateParticles DL 1 (1 / 2 ## 1 / 2 ## 1 / 2 ## 1 / 2 ## 1 / 2 ## sconst 0)
     = Some ([- 1 / 2, 0, 0], sconst 0)
   \<and> generateParticles DL 1 (sconst 0) = Some ([- 13 / 5, - 3 / 2, - 3 / 20], sconst 0)"
  using eval_DL_half eval_DL_zero by simp

text \<open>
  With every draw equal to 0.25 a Saturn particle belongs to the sphere body; with
  every draw equal to 0.96 a Tree particle belongs to the star.
\<close>

theorem sphere_radius_witness:
  "unitDraws (sconst (1 / 4))
   \<and> (\<exists>p s'. randomPointInSphere 1.8 (sconst (1 / 4)) = Some (p, s') \<and> vlength p \<le> 1.8)
   \<and> (\<exists>p s'. saturnPoint (sconst (1 / 4)) = Some (p, s') \<and> vlength p \<le> 1.8)
   \<and> unitDraws (sconst 0.96)
   \<and> (\<exists>x y z s'. treePoint (sconst 0.96) = Some ((x, y, z), s')
          \<and> vlength (x, y - 2.2, z) \<le> 0.3)"
  using sphere_radius [of "sconst (1 / 4)" "1.8"] sphere_radius [of "sconst 0.96" "0.3"]
  by (simp add: unitDraws_def)

text \<open>
  The first particle of two, with the draws 0.7, 0.5, 0.5, 0.5, 0.5: interior fill, arc,
  angle 0 and radius 0.75.
\<close>

theorem arc_fill_guard_witness:
  "dlPoint 0 2 (0.7 ## sconst 0.5) = Some ((- 1.25, 0, 0), sconst 0.5)"
  using arc_fill_guard [of 0 2 "0.7 ## sconst 0.5"]
  by (simp add: Let_def eval_nat_numeral)

text \<open>With every draw equal to 0 the direction of the one particle has length 1.\<close>

theorem explosion_buffer_witness:
  "unitDraws (sconst 0)
   \<and> (\<exists>pos rand s2. particleBuffers DL 1 (sconst 0) = Some (pos, rand, s2)
         \<and> length rand = 3 \<and> length pos = 3 \<and> vlength (slot rand 0) = 1)"
proof -
  have u: "unitDraws (sconst 0)" by (simp add: unitDraws_def)
  have g: "generateParticles DL 1 (sconst 0) = Some ([- 2.6, - 1.5, - 0.15], sconst 0)"
    by (simp add: generateParticles_def generateLoop.simps particle_def dlPoint_def letterD_def
          Math_random_def Let_def setPoint_def eval_nat_numeral)
  from explosion_buffer [OF u, of DL 1] g u show ?thesis
    by auto
qed

text \<open>
  C5 as stated fails: with every draw equal to 0.5 (a random source within its contract)
  the direction of the one particle is the zero vector, of length 0.
\<close>

theorem explosion_buffer_counterexample:
  "unitDraws (sconst (1 / 2))
   \<and> particleBuffers DL 1 (sconst (1 / 2)) = Some ([- 1 / 2, 0, 0], [0, 0, 0], sconst (1 / 2))
   \<and> vlength (slot [0, 0, 0] 0) = 0"
  using eval_zero_direction by (simp add: unitDraws_def vlength_def slot_def)

end
